theory Spec2Isabelle
  imports Main
begin

section \<open>Recruiter record and role-state derivation\<close>

text \<open>
  Source: \<^verbatim>\<open>src/models/Recruiter.ts\<close>, \<^verbatim>\<open>src/models/User.ts\<close> and
  \<^verbatim>\<open>src/middleware/syncRecruiterRoleFromRecruiterDoc.ts\<close>.

  Optional fields of the TypeScript interfaces are \<open>option\<close> values (\<open>None\<close> is
  \<^verbatim>\<open>undefined\<close> or \<^verbatim>\<open>null\<close>). Dates are natural numbers (a clock reading).
  The badge status is kept as a string, since the derivation has a branch for values
  outside the schema's enumeration. The flag \<^verbatim>\<open>onboarded\<close> is only tested for
  truthiness, so an absent flag is \<open>False\<close>; \<^verbatim>\<open>kycStatus\<close> is the schema's enumeration
  with its default \<^verbatim>\<open>none\<close>.
\<close>

datatype role_state = RoleNone | RolePending | RoleActive | RoleRejected

datatype kyc_status = KycNone | KycPending | KycApproved | KycRejected

record badge =
  badge_verified :: bool
  badge_status :: "string option"
  badge_level :: "nat option"
  badge_lastCheckedAt :: "nat option"
  badge_txHash :: "string option"
  badge_network :: "string option"
  badge_credentialId :: "string option"
  badge_revokedAt :: "nat option"
  badge_revokeReason :: "string option"
  badge_revocationTxHash :: "string option"

record recruiter =
  rec_id :: string
  rec_did :: string
  rec_orgLegalName :: "string option"
  rec_contactEmail :: "string option"
  rec_website :: "string option"
  rec_onboarded :: bool
  rec_kycStatus :: kyc_status
  rec_badge :: "badge option"

text \<open>\<^verbatim>\<open>recruiter.badge?.status ?? "None"\<close>\<close>

definition badgeStatusOrNone :: "recruiter \<Rightarrow> string" where
  "badgeStatusOrNone r =
     (case rec_badge r of
        None \<Rightarrow> ''None''
      | Some b \<Rightarrow> (case badge_status b of None \<Rightarrow> ''None'' | Some s \<Rightarrow> s))"

definition computeRecruiterRoleState :: "recruiter option \<Rightarrow> role_state" where
  "computeRecruiterRoleState recruiter =
     (case recruiter of
        None \<Rightarrow> RoleNone
      | Some r \<Rightarrow>
          if \<not> rec_onboarded r then RoleNone
          else let status = badgeStatusOrNone r in
            if status = ''Active'' then RoleActive
            else if status = ''Pending'' then RolePending
            else if status = ''Revoked'' \<or> status = ''Rejected'' then RoleRejected
            else RolePending)"

section \<open>JavaScript string helpers and the session\<close>

text \<open>
  \<^verbatim>\<open>String.prototype.trim\<close> and \<^verbatim>\<open>toLowerCase\<close> on the characters a \<open>string\<close>
  of HOL can hold: the white space removed is tab, line feed, vertical tab, form feed,
  carriage return, space and no-break space; the letters lowered are A to Z and the
  capital letters of the range U+00C0 to U+00DE. A string value is truthy when it is
  present and not the empty string.
\<close>

definition is_space :: "char \<Rightarrow> bool" where
  "is_space c = ((of_char c :: nat) \<in> {9, 10, 11, 12, 13, 32, 160})"

definition trim :: "string \<Rightarrow> string" where
  "trim s = rev (dropWhile is_space (rev (dropWhile is_space s)))"

definition lower_char :: "char \<Rightarrow> char" where
  "lower_char c =
     (let n = (of_char c :: nat)
      in if (65 \<le> n \<and> n \<le> 90) \<or> (192 \<le> n \<and> n \<le> 222 \<and> n \<noteq> 215) then char_of (n + 32)
         else c)"

definition toLowerCase :: "string \<Rightarrow> string" where
  "toLowerCase s = map lower_char s"

definition truthy :: "string option \<Rightarrow> bool" where
  "truthy v = (case v of None \<Rightarrow> False | Some s \<Rightarrow> s \<noteq> [])"

text \<open>\<^verbatim>\<open>SessionPayload\<close> of \<^verbatim>\<open>src/middleware/requireSession.ts\<close>.\<close>

record session =
  s_did :: "string option"
  s_privyUserId :: "string option"
  s_email :: "string option"
  s_wallet_address :: "string option"

text \<open>
  \<^verbatim>\<open>mustGetSession\<close> and \<^verbatim>\<open>mustGetDid\<close> of \<^verbatim>\<open>src/auth/identity.ts\<close>; the
  request's session may be absent. A thrown \<^verbatim>\<open>Error\<close> is \<open>Inl\<close> of its message.
\<close>

definition emptyToNone :: "string \<Rightarrow> string option" where
  "emptyToNone s = (if s = [] then None else Some s)"

definition orEmpty :: "string option \<Rightarrow> string" where
  "orEmpty v = (case v of None \<Rightarrow> [] | Some s \<Rightarrow> s)"

definition emptySession :: session where
  "emptySession = \<lparr> s_did = None, s_privyUserId = None, s_email = None, s_wallet_address = None \<rparr>"

definition mustGetSession :: "session option \<Rightarrow> string + session" where
  "mustGetSession req_session =
     (let s = (case req_session of None \<Rightarrow> emptySession | Some x \<Rightarrow> x);
          did = trim (orEmpty (s_did s));
          email = toLowerCase (trim (orEmpty (s_email s)));
          wallet_address = trim (orEmpty (s_wallet_address s))
      in if did = [] \<and> email = [] then Inl ''Unauthenticated''
         else Inr (s\<lparr> s_did := emptyToNone did, s_email := emptyToNone email,
                       s_wallet_address := emptyToNone wallet_address \<rparr>))"

definition mustGetDid :: "session option \<Rightarrow> string + string" where
  "mustGetDid req_session =
     (case mustGetSession req_session of
        Inl e \<Rightarrow> Inl e
      | Inr s \<Rightarrow> (case s_did s of None \<Rightarrow> Inl ''Missing DID in session'' | Some d \<Rightarrow> Inr d))"

text \<open>\<^verbatim>\<open>IUser\<close> of \<^verbatim>\<open>src/models/User.ts\<close>: the cached role states.\<close>

record user =
  u_privyUserId :: string
  u_email :: "string option"
  u_did :: "string option"
  u_wallet_address :: "string option"
  roles_seeker :: role_state
  roles_recruiter :: role_state
  roles_issuer :: role_state

text \<open>
  \<^verbatim>\<open>syncRecruiterRoleFromRecruiterDoc\<close>: the recruiter is looked up by the session's
  trimmed DID, then by its trimmed lower-case email; the cached state is written only
  when it differs. The result is the request's user (saved when changed) and the
  recruiter document attached to the request. \<^verbatim>\<open>Recruiter.findOne\<close> returns the first
  matching document of the collection.
\<close>

definition findRecruiterByDid :: "string \<Rightarrow> recruiter list \<Rightarrow> recruiter option" where
  "findRecruiterByDid d rs = find (\<lambda>r. rec_did r = d) rs"

definition findRecruiterByContactEmail :: "string \<Rightarrow> recruiter list \<Rightarrow> recruiter option" where
  "findRecruiterByContactEmail e rs = find (\<lambda>r. rec_contactEmail r = Some e) rs"

definition syncRecruiterRoleFromRecruiterDoc ::
  "user option \<Rightarrow> session option \<Rightarrow> recruiter list \<Rightarrow> user option \<times> recruiter option" where
  "syncRecruiterRoleFromRecruiterDoc req_user req_session rs =
     (case req_user of
        None \<Rightarrow> (None, None)
      | Some u \<Rightarrow>
          let did = (case req_session of None \<Rightarrow> None | Some s \<Rightarrow> map_option trim (s_did s));
              email = (case req_session of None \<Rightarrow> None
                       | Some s \<Rightarrow> map_option (\<lambda>e. toLowerCase (trim e)) (s_email s));
              byDid = (if truthy did then findRecruiterByDid (orEmpty did) rs else None);
              recruiter = (if byDid = None \<and> truthy email
                           then findRecruiterByContactEmail (orEmpty email) rs else byDid);
              desired = computeRecruiterRoleState recruiter
          in (Some (if roles_recruiter u \<noteq> desired then u\<lparr> roles_recruiter := desired \<rparr> else u),
              recruiter))"

section \<open>The document store\<close>

text \<open>
  Sources: the Mongoose schemas of \<^verbatim>\<open>Credential\<close>, \<^verbatim>\<open>Seeker\<close>, \<^verbatim>\<open>Application\<close> and
  \<^verbatim>\<open>SharedProof\<close> (\<^verbatim>\<open>src/models\<close>). A collection is the list of its documents in
  insertion order; \<^verbatim>\<open>findOne\<close> and \<^verbatim>\<open>updateOne\<close> act on the first match,
  \<^verbatim>\<open>updateMany\<close> and \<^verbatim>\<open>deleteMany\<close> on every match. A stored JSON value (the
  \<^verbatim>\<open>Mixed\<close> fields) is a \<open>json\<close> tree.
\<close>

datatype json =
  JNull | JBool bool | JNum int | JStr string | JArr "json list" | JObj "(string \<times> json) list"

text \<open>The truth value that JavaScript gives a JSON value.\<close>

fun jsonTruthy :: "json \<Rightarrow> bool" where
  "jsonTruthy JNull = False"
| "jsonTruthy (JBool b) = b"
| "jsonTruthy (JNum n) = (n \<noteq> 0)"
| "jsonTruthy (JStr t) = (t \<noteq> [])"
| "jsonTruthy (JArr xs) = True"
| "jsonTruthy (JObj kvs) = True"

datatype cred_status = CredActive | CredRevoked | CredExpired

record credential =
  cred_credentialId :: string
  cred_subjectDid :: string
  cred_issuerDid :: string
  cred_title :: "string option"
  cred_type :: "string list"
  cred_issuanceDate :: "nat option"
  cred_status :: cred_status
  cred_onChainTxHash :: "string option"
  cred_revocationTxHash :: "string option"
  cred_vcRaw :: "json option"
  cred_network :: "string option"

text \<open>An entry of \<^verbatim>\<open>Seeker.vcs\<close>, as the issuer routes write it.\<close>

record vc_summary =
  vc_id :: "string option"
  vc_section :: "string option"
  vc_title :: "string option"
  vc_issuerDid :: "string option"
  vc_status :: "string option"
  vc_issuedAt :: "string option"
  vc_credentialId :: "string option"

record seeker_profile =
  prof_careerHistory :: "json list"
  prof_skills :: "string list"
  prof_languages :: "string list"
  prof_resumeInfo :: "json option"

record seeker =
  sk_id :: string
  sk_did :: "string option"
  sk_email :: "string option"
  sk_name :: "string option"
  sk_onboarded :: bool
  sk_homeLocation :: "string option"
  sk_classification :: "string option"
  sk_subClass :: "string option"
  sk_visibility :: "string option"
  sk_vcOnly :: "bool option"
  sk_consentShareVC :: "bool option"
  sk_antiPhishAck :: "bool option"
  sk_profile :: "seeker_profile option"
  sk_vcs :: "vc_summary list"
  sk_defaultSharedVcIds :: "string list"

datatype app_status = Submitted | Withdrawn | Shortlisted | AppRejected | Hired

record seeker_snapshot =
  snap_name :: "string option"
  snap_email :: "string option"
  snap_homeLocation :: "string option"
  snap_skills :: "string list"
  snap_languages :: "string list"
  snap_resumeInfo :: "json option"

record application =
  app_id :: string
  app_jobId :: string
  app_seekerDid :: string
  app_recruiterDid :: string
  app_sharedVcIds :: "string list"
  app_status :: app_status
  app_seekerProfile :: "seeker_snapshot option"

record shared_proof =
  sp_applicationId :: string
  sp_jobId :: "string option"
  sp_seekerDid :: string
  sp_recruiterDid :: string
  sp_vcId :: string
  sp_derivedProof :: "json option"
  sp_nonce :: "string option"
  sp_revealedDocument :: "json option"

text \<open>\<^verbatim>\<open>IIssuer\<close> of \<^verbatim>\<open>src/models/Issuer.ts\<close>.\<close>

record issuer =
  iss_id :: string
  iss_did :: string
  iss_email :: "string option"
  iss_name :: "string option"
  iss_orgName :: "string option"
  iss_orgType :: "string option"
  iss_onboarded :: bool
  iss_bbsPrivateKeyJwk :: "json option"
  iss_bbsPublicKeyJwk :: "json option"
  iss_bbsVerificationMethodId :: "string option"

record db =
  credentials :: "credential list"
  recruiters :: "recruiter list"
  issuers :: "issuer list"
  seekers :: "seeker list"
  applications :: "application list"
  sharedProofs :: "shared_proof list"

text \<open>\<^verbatim>\<open>updateOne\<close>: the first document that matches the filter is changed.\<close>

fun update_first :: "('a \<Rightarrow> bool) \<Rightarrow> ('a \<Rightarrow> 'a) \<Rightarrow> 'a list \<Rightarrow> 'a list" where
  "update_first P f [] = []"
| "update_first P f (x # xs) = (if P x then f x # xs else x # update_first P f xs)"

text \<open>\<^verbatim>\<open>updateMany\<close>: every document that matches the filter is changed.\<close>

definition update_many :: "('a \<Rightarrow> bool) \<Rightarrow> ('a \<Rightarrow> 'a) \<Rightarrow> 'a list \<Rightarrow> 'a list" where
  "update_many P f xs = map (\<lambda>x. if P x then f x else x) xs"

text \<open>\<^verbatim>\<open>deleteMany\<close>: every document that matches the filter is removed.\<close>

definition delete_many :: "('a \<Rightarrow> bool) \<Rightarrow> 'a list \<Rightarrow> 'a list" where
  "delete_many P xs = filter (\<lambda>x. \<not> P x) xs"

text \<open>The array update operator \<^verbatim>\<open>$pull\<close> with a value: every occurrence is removed.\<close>

definition pull :: "'a \<Rightarrow> 'a list \<Rightarrow> 'a list" where
  "pull v xs = filter (\<lambda>x. x \<noteq> v) xs"

definition findCredential :: "string \<Rightarrow> string \<Rightarrow> credential list \<Rightarrow> credential option" where
  "findCredential credentialId issuerDid cs =
     find (\<lambda>c. cred_credentialId c = credentialId \<and> cred_issuerDid c = issuerDid) cs"

definition findSeekerByDid :: "string \<Rightarrow> seeker list \<Rightarrow> seeker option" where
  "findSeekerByDid d hs = find (\<lambda>h. sk_did h = Some d) hs"

section \<open>Capability gate\<close>

text \<open>
  \<^verbatim>\<open>requireRoleStateIn\<close> and \<^verbatim>\<open>requireRoleActive\<close> of \<^verbatim>\<open>src/middleware/rbac.ts\<close>:
  the gate reads the cached state of the request's user, \<open>none\<close> when there is no user.
\<close>

datatype role = Seeker | Recruiter | Issuer

definition role_of :: "role \<Rightarrow> user \<Rightarrow> role_state" where
  "role_of r u = (case r of Seeker \<Rightarrow> roles_seeker u | Recruiter \<Rightarrow> roles_recruiter u
                  | Issuer \<Rightarrow> roles_issuer u)"

definition requireRoleStateIn :: "role \<Rightarrow> role_state list \<Rightarrow> user option \<Rightarrow> bool" where
  "requireRoleStateIn r allowed req_user =
     (let current = (case req_user of None \<Rightarrow> RoleNone | Some u \<Rightarrow> role_of r u)
      in current \<in> set allowed)"

definition requireRoleActive :: "role \<Rightarrow> user option \<Rightarrow> bool" where
  "requireRoleActive r req_user = requireRoleStateIn r [RoleActive] req_user"

section \<open>Revocation cascade: POST /issuer/vc/revoke\<close>

text \<open>
  Source: \<^verbatim>\<open>src/routes/issuer.ts\<close>, route \<^verbatim>\<open>/vc/revoke\<close>.

  The handler awaits a sequence of store operations and one ledger call, inside one
  \<^verbatim>\<open>try\<close> block; any of them may throw, which ends the handler with status 500 and
  keeps every write made so far. The environment of a call says which awaited store
  operation throws (\<open>env_dbThrows\<close>), what the ledger call returns
  (\<open>env_revokeRecruiterBadgeOnChain\<close>, \<open>None\<close> when it throws) and the clock reading.
  \<^verbatim>\<open>revokeRecruiterBadgeOnChain\<close> is a name imported from \<^verbatim>\<open>chain.service\<close>. The
  handler is written over the environment, so that what is proved of it for every
  environment holds whatever that call does; the call as the sources have it is
  \<open>sourceRevokeEnv\<close> below.

  The handler returns the new store, the response, and the list of writes and ledger
  calls it attempted, in program order.
\<close>

record tx =
  tx_txHash :: string
  tx_network :: string

datatype revoke_op =
  OpFindCredential | OpUpdateCredentialStatus | OpFindRecruiter | OpUpdateRecruiterBadge
  | OpUpdateCredentialTx | OpUpdateSeeker | OpUpdateApplications | OpDeleteSharedProofs

record revoke_env =
  env_now :: nat
  env_revokeRecruiterBadgeOnChain :: "string \<Rightarrow> tx option"
  env_dbThrows :: "revoke_op \<Rightarrow> bool"

datatype effect =
  CredentialStatusWrite string
  | LedgerRevokeCall string
  | RecruiterBadgeWrite string
  | CredentialTxWrite string
  | HolderCacheWrite string
  | ApplicationsWrite string
  | SharedProofDelete string

datatype 'a outcome = Threw | Returned 'a

datatype revoke_response =
  RevokeForbidden
  | RevokeBadRequest
  | RevokeUnhandled string
  | RevokeNotFound
  | RevokeFailed
  | RevokeOk string "credential option" "tx option"

record revoke_request =
  rq_user :: "user option"
  rq_session :: "session option"
  rq_credentialId :: "string option"
  rq_reason :: "string option"

text \<open>\<^verbatim>\<open>reason || "unspecified"\<close>\<close>

definition reasonOrUnspecified :: "string option \<Rightarrow> string" where
  "reasonOrUnspecified reason = (if truthy reason then orEmpty reason else ''unspecified'')"

text \<open>A badge sub-document none of whose fields is stored.\<close>

definition absentBadge :: badge where
  "absentBadge = \<lparr> badge_verified = False, badge_status = None, badge_level = None,
     badge_lastCheckedAt = None, badge_txHash = None, badge_network = None,
     badge_credentialId = None, badge_revokedAt = None, badge_revokeReason = None,
     badge_revocationTxHash = None \<rparr>"

text \<open>The \<^verbatim>\<open>$set\<close> of the seven \<^verbatim>\<open>badge.*\<close> paths on the recruiter.\<close>

definition setBadgeRevoked :: "nat \<Rightarrow> string \<Rightarrow> tx \<Rightarrow> recruiter \<Rightarrow> recruiter" where
  "setBadgeRevoked now reason t r =
     r\<lparr> rec_badge := Some ((case rec_badge r of None \<Rightarrow> absentBadge | Some b \<Rightarrow> b)
          \<lparr> badge_verified := False,
            badge_status := Some ''Revoked'',
            badge_lastCheckedAt := Some now,
            badge_revokedAt := Some now,
            badge_revokeReason := Some reason,
            badge_revocationTxHash := Some (tx_txHash t),
            badge_network := Some (tx_network t) \<rparr>) \<rparr>"

text \<open>
  The \<^verbatim>\<open>$set\<close> with \<^verbatim>\<open>arrayFilters\<close> and the \<^verbatim>\<open>$pull\<close> on the holder: every entry of
  \<^verbatim>\<open>vcs\<close> whose \<^verbatim>\<open>credentialId\<close> is the revoked one gets status \<^verbatim>\<open>revoked\<close>.
\<close>

definition markHolderRevoked :: "string \<Rightarrow> seeker \<Rightarrow> seeker" where
  "markHolderRevoked credentialId h =
     h\<lparr> sk_vcs := map (\<lambda>v. if vc_credentialId v = Some credentialId
                             then v\<lparr> vc_status := Some ''revoked'' \<rparr> else v) (sk_vcs h),
        sk_defaultSharedVcIds := pull credentialId (sk_defaultSharedVcIds h) \<rparr>"

text \<open>Step 2 of the handler for a \<^verbatim>\<open>RecruiterCredential\<close>: ledger first, then the badge.\<close>

definition revokeRecruiterBranch ::
  "revoke_env \<Rightarrow> string \<Rightarrow> string \<Rightarrow> string option \<Rightarrow> credential \<Rightarrow> db
     \<Rightarrow> db \<times> effect list \<times> tx option outcome" where
  "revokeRecruiterBranch env credentialId issuerDid reason cred d =
     (if env_dbThrows env OpFindRecruiter then (d, [], Threw)
      else (case findRecruiterByDid (cred_subjectDid cred) (recruiters d) of
        None \<Rightarrow> (d, [], Returned None)
      | Some recruiter \<Rightarrow>
          (case env_revokeRecruiterBadgeOnChain env (rec_did recruiter) of
             None \<Rightarrow> (d, [LedgerRevokeCall (rec_did recruiter)], Threw)
           | Some t \<Rightarrow>
               if env_dbThrows env OpUpdateRecruiterBadge
               then (d, [LedgerRevokeCall (rec_did recruiter),
                         RecruiterBadgeWrite (rec_id recruiter)], Threw)
               else
                 let d1 = d\<lparr> recruiters :=
                        update_first (\<lambda>r. rec_id r = rec_id recruiter)
                          (setBadgeRevoked (env_now env) (reasonOrUnspecified reason) t)
                          (recruiters d) \<rparr>
                 in if env_dbThrows env OpUpdateCredentialTx
                    then (d1, [LedgerRevokeCall (rec_did recruiter),
                               RecruiterBadgeWrite (rec_id recruiter),
                               CredentialTxWrite credentialId], Threw)
                    else
                      (d1\<lparr> credentials :=
                          update_first
                            (\<lambda>c. cred_credentialId c = credentialId \<and> cred_issuerDid c = issuerDid)
                            (\<lambda>c. c\<lparr> cred_revocationTxHash := Some (tx_txHash t) \<rparr>)
                            (credentials d1) \<rparr>,
                       [LedgerRevokeCall (rec_did recruiter),
                        RecruiterBadgeWrite (rec_id recruiter),
                        CredentialTxWrite credentialId],
                       Returned (Some t)))))"

text \<open>Step 2 for every other credential: holder cache, applications, disclosures.\<close>

definition revokeSeekerBranch ::
  "revoke_env \<Rightarrow> string \<Rightarrow> credential \<Rightarrow> db \<Rightarrow> db \<times> effect list \<times> tx option outcome" where
  "revokeSeekerBranch env credentialId cred d =
     (if env_dbThrows env OpUpdateSeeker then (d, [HolderCacheWrite credentialId], Threw)
      else
        let d1 = d\<lparr> seekers :=
               update_first (\<lambda>h. sk_did h = Some (cred_subjectDid cred))
                 (markHolderRevoked credentialId) (seekers d) \<rparr>
        in if env_dbThrows env OpUpdateApplications
           then (d1, [HolderCacheWrite credentialId, ApplicationsWrite credentialId], Threw)
           else
             let d2 = d1\<lparr> applications :=
                    update_many (\<lambda>a. credentialId \<in> set (app_sharedVcIds a))
                      (\<lambda>a. a\<lparr> app_sharedVcIds := pull credentialId (app_sharedVcIds a) \<rparr>)
                      (applications d1) \<rparr>
             in if env_dbThrows env OpDeleteSharedProofs
                then (d2, [HolderCacheWrite credentialId, ApplicationsWrite credentialId,
                           SharedProofDelete credentialId], Threw)
                else
                  (d2\<lparr> sharedProofs :=
                      delete_many (\<lambda>p. sp_vcId p = credentialId) (sharedProofs d2) \<rparr>,
                   [HolderCacheWrite credentialId, ApplicationsWrite credentialId,
                    SharedProofDelete credentialId],
                   Returned None))"

text \<open>
  The handler. \<^verbatim>\<open>mustGetDid\<close> is called before the \<^verbatim>\<open>try\<close> block, so its error is
  not turned into a response. Step 1 is the \<^verbatim>\<open>findOneAndUpdate\<close> that sets the status;
  with \<^verbatim>\<open>new: true\<close> it returns the document as updated.
\<close>

definition revokeVcHandler ::
  "revoke_env \<Rightarrow> revoke_request \<Rightarrow> db \<Rightarrow> db \<times> effect list \<times> revoke_response" where
  "revokeVcHandler env rq d =
     (if \<not> truthy (rq_credentialId rq) then (d, [], RevokeBadRequest)
      else
        let credentialId = orEmpty (rq_credentialId rq) in
        (case mustGetDid (rq_session rq) of
          Inl e \<Rightarrow> (d, [], RevokeUnhandled e)
        | Inr issuerDid \<Rightarrow>
            if env_dbThrows env OpFindCredential then (d, [], RevokeFailed)
            else (case findCredential credentialId issuerDid (credentials d) of
              None \<Rightarrow> (d, [], RevokeNotFound)
            | Some cred \<Rightarrow>
                if env_dbThrows env OpUpdateCredentialStatus
                then (d, [CredentialStatusWrite credentialId], RevokeFailed)
                else
                  let d1 = d\<lparr> credentials :=
                         update_first
                           (\<lambda>c. cred_credentialId c = credentialId \<and> cred_issuerDid c = issuerDid)
                           (\<lambda>c. c\<lparr> cred_status := CredRevoked \<rparr>)
                           (credentials d) \<rparr>;
                      updated = findCredential credentialId issuerDid (credentials d1);
                      isRecruiterVc = (''RecruiterCredential'' \<in> set (cred_type cred));
                      (d2, log, badgeRevocation) =
                         (if isRecruiterVc
                          then revokeRecruiterBranch env credentialId issuerDid (rq_reason rq) cred d1
                          else revokeSeekerBranch env credentialId cred d1)
                  in (d2, CredentialStatusWrite credentialId # log,
                      (case badgeRevocation of
                         Threw \<Rightarrow> RevokeFailed
                       | Returned t \<Rightarrow>
                           RevokeOk (reasonOrUnspecified (rq_reason rq)) updated t)))))"

text \<open>The route: the gate \<^verbatim>\<open>requireRoleActive("issuer")\<close>, then the handler.\<close>

definition revokeVcRoute ::
  "revoke_env \<Rightarrow> revoke_request \<Rightarrow> db \<Rightarrow> db \<times> effect list \<times> revoke_response" where
  "revokeVcRoute env rq d =
     (if requireRoleActive Issuer (rq_user rq) then revokeVcHandler env rq d
      else (d, [], RevokeForbidden))"

text \<open>
  The ledger call as the sources have it. \<^verbatim>\<open>src/services/chain.service.ts\<close> exports
  \<^verbatim>\<open>issueRecruiterBadgeOnChain\<close>, \<^verbatim>\<open>getRecruiterTrustStatusFromChain\<close> and
  \<^verbatim>\<open>readOnChainStatus\<close>, and no other function; no file of the repository declares
  \<^verbatim>\<open>revokeRecruiterBadgeOnChain\<close>. The name that \<^verbatim>\<open>issuer.ts\<close> imports from that module
  is therefore bound to \<^verbatim>\<open>undefined\<close>, and the call
  \<^verbatim>\<open>await revokeRecruiterBadgeOnChain(recruiter.did)\<close> throws a \<^verbatim>\<open>TypeError\<close> for every
  argument. \<open>sourceRevokeEnv\<close> is the environment of the route with this import; the
  clock and the store faults stay parameters.
\<close>

definition revokeRecruiterBadgeOnChain :: "string \<Rightarrow> tx option" where
  "revokeRecruiterBadgeOnChain recruiterDid = None"

definition sourceRevokeEnv :: "nat \<Rightarrow> (revoke_op \<Rightarrow> bool) \<Rightarrow> revoke_env" where
  "sourceRevokeEnv now dbThrows =
     \<lparr> env_now = now, env_revokeRecruiterBadgeOnChain = revokeRecruiterBadgeOnChain,
       env_dbThrows = dbThrows \<rparr>"

section \<open>Applications and disclosures\<close>

text \<open>
  Source: \<^verbatim>\<open>src/routes/applications.ts\<close>. The store operations of these routes are
  taken to succeed; what the routes themselves throw (\<^verbatim>\<open>mustGetDid\<close>,
  \<^verbatim>\<open>deepCloneVcRawUntouched\<close>, a failed schema validation) is modelled, and is caught by
  the route's \<^verbatim>\<open>try\<close> block. \<^verbatim>\<open>JSON.parse\<close> is a parameter (\<open>None\<close> when it throws).
\<close>

record app_env =
  aenv_jsonParse :: "string \<Rightarrow> json option"
  aenv_newId :: string

text \<open>
  \<^verbatim>\<open>deepCloneVcRawUntouched\<close>: \<^verbatim>\<open>null\<close> and \<^verbatim>\<open>undefined\<close> are returned as they are, a
  string is parsed, and every other value goes through
  \<^verbatim>\<open>JSON.parse(JSON.stringify(vcRaw))\<close>, which gives back an equal JSON tree.
\<close>

definition deepCloneVcRawUntouched ::
  "(string \<Rightarrow> json option) \<Rightarrow> json option \<Rightarrow> string + json option" where
  "deepCloneVcRawUntouched parse vcRaw =
     (case vcRaw of
        None \<Rightarrow> Inr None
      | Some JNull \<Rightarrow> Inr (Some JNull)
      | Some (JStr t) \<Rightarrow>
          (case parse t of
             None \<Rightarrow> Inl ''Credential.vcRaw is a non-JSON string; cannot store as revealedDocument''
           | Some j \<Rightarrow> Inr (Some j))
      | Some j \<Rightarrow> Inr (Some j))"

text \<open>The \<^verbatim>\<open>mustGetDid\<close> that \<^verbatim>\<open>applications.ts\<close> declares for itself.\<close>

definition appMustGetDid :: "session option \<Rightarrow> string + string" where
  "appMustGetDid req_session =
     (let did = trim (orEmpty (case req_session of None \<Rightarrow> None | Some s \<Rightarrow> s_did s))
      in if did = [] then Inl ''Unauthenticated'' else Inr did)"

definition isOwnerOfApplication :: "string \<Rightarrow> application \<Rightarrow> bool" where
  "isOwnerOfApplication sessionDid app =
     (let did = trim sessionDid in did = app_seekerDid app \<or> did = app_recruiterDid app)"

text \<open>\<^verbatim>\<open>Array.from(new Set(xs))\<close>: the distinct elements, each at its first position.\<close>

definition uniq :: "'a list \<Rightarrow> 'a list" where
  "uniq xs = rev (remdups (rev xs))"

definition filterActiveSharedProofs :: "shared_proof list \<Rightarrow> credential list \<Rightarrow> shared_proof list" where
  "filterActiveSharedProofs proofs creds =
     (if proofs = [] then []
      else
        let vcIds = uniq (filter (\<lambda>i. i \<noteq> []) (map sp_vcId proofs)) in
        if vcIds = [] then []
        else
          let activeCreds = filter (\<lambda>c. cred_credentialId c \<in> set vcIds
                                          \<and> cred_status c = CredActive) creds;
              activeSet = set (map cred_credentialId activeCreds)
          in filter (\<lambda>p. sp_vcId p \<in> activeSet) proofs)"

definition findApplicationById :: "string \<Rightarrow> application list \<Rightarrow> application option" where
  "findApplicationById i as = find (\<lambda>a. app_id a = i) as"

text \<open>
  GET \<^verbatim>\<open>/applications/:id\<close>. \<^verbatim>\<open>Application.findById\<close> and \<^verbatim>\<open>Job.findById\<close> cast their
  argument to an ObjectId and reject (a \<^verbatim>\<open>CastError\<close>, caught by the route's \<^verbatim>\<open>try\<close>)
  when the string is not one; which strings are ObjectIds is the parameter
  \<open>validObjectId\<close>. The response carries the application and, when the filtered list is
  not empty, the field \<^verbatim>\<open>proofs\<close> with the pair (\<^verbatim>\<open>vcId\<close>, \<^verbatim>\<open>revealedDocument\<close>) of each
  disclosure that passed the filter. The job, seeker and trust-status decoration of the
  response reads other collections only and is left out.
\<close>

datatype get_app_response =
  GetAppNotFound | GetAppForbidden | GetAppFailed
  | GetAppOk application "(string \<times> json option) list option"

definition listActiveDisclosures :: "string \<Rightarrow> db \<Rightarrow> shared_proof list" where
  "listActiveDisclosures i d =
     filterActiveSharedProofs (filter (\<lambda>p. sp_applicationId p = i) (sharedProofs d))
       (credentials d)"

definition getApplication ::
  "(string \<Rightarrow> bool) \<Rightarrow> session option \<Rightarrow> string \<Rightarrow> db \<Rightarrow> get_app_response" where
  "getApplication validObjectId req_session i d =
     (case appMustGetDid req_session of
        Inl e \<Rightarrow> GetAppFailed
      | Inr sessionDid \<Rightarrow>
          if \<not> validObjectId i then GetAppFailed
          else
            (case findApplicationById i (applications d) of
               None \<Rightarrow> GetAppNotFound
             | Some app \<Rightarrow>
                 if \<not> isOwnerOfApplication sessionDid app then GetAppForbidden
                 else if \<not> validObjectId (app_jobId app) then GetAppFailed
                 else
                   let safeProofs = listActiveDisclosures i d in
                   GetAppOk app
                     (if safeProofs \<noteq> []
                      then Some (map (\<lambda>p. (sp_vcId p, sp_revealedDocument p)) safeProofs)
                      else None)))"

text \<open>
  The credential selection that POST \<^verbatim>\<open>/applications\<close> and PATCH
  \<^verbatim>\<open>/applications/:id/shared-vcs\<close> both write out: the \<^verbatim>\<open>Credential.find\<close> with the
  three conditions, the \<^verbatim>\<open>Map\<close> filled in result order (a later entry replaces an
  earlier one with the same key) and the requested ids that have an entry.
\<close>

definition findOwnedActive :: "string list \<Rightarrow> string \<Rightarrow> credential list \<Rightarrow> credential list" where
  "findOwnedActive ids seekerDid creds =
     filter (\<lambda>c. cred_credentialId c \<in> set ids \<and> cred_subjectDid c = seekerDid
                  \<and> cred_status c = CredActive) creds"

definition byIdGet :: "credential list \<Rightarrow> string \<Rightarrow> credential option" where
  "byIdGet found credId = find (\<lambda>c. cred_credentialId c = credId) (rev found)"

definition validSelectedOf :: "string list \<Rightarrow> credential list \<Rightarrow> string list" where
  "validSelectedOf ids found = filter (\<lambda>credId. byIdGet found credId \<noteq> None) ids"

text \<open>
  The \<^verbatim>\<open>updateOne\<close> operations with \<^verbatim>\<open>upsert: true\<close> that both routes build, one per
  selected id, and \<^verbatim>\<open>SharedProof.bulkWrite\<close>, which applies them in order. The
  \<^verbatim>\<open>$set\<close> names every field of the record, so an existing record for the pair
  (\<^verbatim>\<open>applicationId\<close>, \<^verbatim>\<open>vcId\<close>) becomes equal to the new one. The documents are cloned
  while the operations are built, before anything is written.
\<close>

definition mkSharedProof ::
  "string \<Rightarrow> string \<Rightarrow> string \<Rightarrow> string \<Rightarrow> string \<Rightarrow> json option \<Rightarrow> shared_proof" where
  "mkSharedProof applicationId jobId seekerDid recruiterDid credId vcObj =
     \<lparr> sp_applicationId = applicationId, sp_jobId = Some jobId, sp_seekerDid = seekerDid,
       sp_recruiterDid = recruiterDid, sp_vcId = credId, sp_derivedProof = None,
       sp_nonce = None, sp_revealedDocument = vcObj \<rparr>"

fun buildBulkOps ::
  "(string \<Rightarrow> json option) \<Rightarrow> credential list \<Rightarrow> (string \<Rightarrow> json option \<Rightarrow> shared_proof)
     \<Rightarrow> string list \<Rightarrow> string + shared_proof list" where
  "buildBulkOps parse found mk [] = Inr []"
| "buildBulkOps parse found mk (credId # rest) =
     (case deepCloneVcRawUntouched parse
             (case byIdGet found credId of None \<Rightarrow> None | Some c \<Rightarrow> cred_vcRaw c) of
        Inl e \<Rightarrow> Inl e
      | Inr vcObj \<Rightarrow>
          (case buildBulkOps parse found mk rest of
             Inl e \<Rightarrow> Inl e
           | Inr ops \<Rightarrow> Inr (mk credId vcObj # ops)))"

definition samePair :: "shared_proof \<Rightarrow> shared_proof \<Rightarrow> bool" where
  "samePair p q = (sp_applicationId q = sp_applicationId p \<and> sp_vcId q = sp_vcId p)"

definition upsertProof :: "shared_proof \<Rightarrow> shared_proof list \<Rightarrow> shared_proof list" where
  "upsertProof p ps =
     (if find (samePair p) ps = None then ps @ [p] else update_first (samePair p) (\<lambda>_. p) ps)"

definition bulkWrite :: "shared_proof list \<Rightarrow> shared_proof list \<Rightarrow> shared_proof list" where
  "bulkWrite ops ps = fold upsertProof ops ps"

text \<open>PATCH \<^verbatim>\<open>/applications/:id/shared-vcs\<close>.\<close>

datatype patch_response =
  PatchNotFound | PatchForbidden | PatchConflict | PatchFailed | PatchOk "string list"

record patch_request =
  pq_session :: "session option"
  pq_id :: string
  pq_sharedVcIds :: "string list option"

definition patchSharedVcs :: "app_env \<Rightarrow> patch_request \<Rightarrow> db \<Rightarrow> db \<times> patch_response" where
  "patchSharedVcs env rq d =
     (case appMustGetDid (pq_session rq) of
        Inl e \<Rightarrow> (d, PatchFailed)
      | Inr sessionDid \<Rightarrow>
          (case findApplicationById (pq_id rq) (applications d) of
             None \<Rightarrow> (d, PatchNotFound)
           | Some app \<Rightarrow>
               if app_seekerDid app \<noteq> sessionDid then (d, PatchForbidden)
               else if app_status app \<noteq> Submitted then (d, PatchConflict)
               else
                 let requested = (case pq_sharedVcIds rq of None \<Rightarrow> [] | Some xs \<Rightarrow> xs);
                     found = findOwnedActive requested (app_seekerDid app) (credentials d);
                     validSelected = validSelectedOf requested found;
                     d1 = d\<lparr> sharedProofs :=
                            delete_many (\<lambda>p. sp_applicationId p = app_id app
                                              \<and> sp_vcId p \<notin> set validSelected)
                              (sharedProofs d) \<rparr>
                 in (case (if validSelected \<noteq> []
                           then buildBulkOps (aenv_jsonParse env) found
                                  (mkSharedProof (app_id app) (app_jobId app) (app_seekerDid app)
                                     (app_recruiterDid app))
                                  validSelected
                           else Inr []) of
                       Inl e \<Rightarrow> (d1, PatchFailed)
                     | Inr ops \<Rightarrow>
                         (d1\<lparr> sharedProofs := bulkWrite ops (sharedProofs d1),
                              applications :=
                                update_first (\<lambda>a. app_id a = app_id app)
                                  (\<lambda>a. a\<lparr> app_sharedVcIds := validSelected \<rparr>)
                                  (applications d1) \<rparr>,
                          PatchOk validSelected))))"

text \<open>
  POST \<^verbatim>\<open>/applications\<close>. The id of the new document is a parameter. The schema makes
  \<^verbatim>\<open>seekerDid\<close> a required string, which an empty string does not satisfy, and gives
  a new document status \<^verbatim>\<open>submitted\<close> and empty \<^verbatim>\<open>seekerProfile\<close> arrays. The body of
  the 201 response is the document as created, with the count of the ids the request sent.
\<close>

datatype create_response =
  CreateUnauthenticated | CreateBadRequest | CreateFailed
  | CreateAlreadyApplied application
  | Created application nat

record create_request =
  cq_session :: "session option"
  cq_jobId :: "string option"
  cq_recruiterDid :: "string option"
  cq_sharedVcIds :: "string list option"

definition findApplicationFor :: "string \<Rightarrow> string \<Rightarrow> application list \<Rightarrow> application option" where
  "findApplicationFor jobId seekerDid as =
     find (\<lambda>a. app_jobId a = jobId \<and> app_seekerDid a = seekerDid) as"

definition defaultSnapshot :: seeker_snapshot where
  "defaultSnapshot = \<lparr> snap_name = None, snap_email = None, snap_homeLocation = None,
     snap_skills = [], snap_languages = [], snap_resumeInfo = None \<rparr>"

definition seekerSnapshot :: "seeker \<Rightarrow> seeker_snapshot" where
  "seekerSnapshot h =
     \<lparr> snap_name = sk_name h, snap_email = sk_email h, snap_homeLocation = sk_homeLocation h,
       snap_skills = (case sk_profile h of None \<Rightarrow> [] | Some pr \<Rightarrow> prof_skills pr),
       snap_languages = (case sk_profile h of None \<Rightarrow> [] | Some pr \<Rightarrow> prof_languages pr),
       snap_resumeInfo = (case sk_profile h of None \<Rightarrow> None | Some pr \<Rightarrow> prof_resumeInfo pr) \<rparr>"

definition attachSeekerSnapshot :: "string \<Rightarrow> string \<Rightarrow> db \<Rightarrow> db" where
  "attachSeekerSnapshot appId seekerDid d =
     (case findSeekerByDid seekerDid (seekers d) of
        None \<Rightarrow> d
      | Some h \<Rightarrow>
          d\<lparr> applications :=
               update_first (\<lambda>a. app_id a = appId)
                 (\<lambda>a. a\<lparr> app_seekerProfile := Some (seekerSnapshot h) \<rparr>) (applications d) \<rparr>)"

definition createApplication :: "app_env \<Rightarrow> create_request \<Rightarrow> db \<Rightarrow> db \<times> create_response" where
  "createApplication env rq d =
     (let sdid = (case cq_session rq of None \<Rightarrow> None | Some s \<Rightarrow> s_did s) in
      if \<not> truthy sdid then (d, CreateUnauthenticated)
      else
        let seekerDid = trim (orEmpty sdid) in
        if \<not> truthy (cq_jobId rq) \<or> \<not> truthy (cq_recruiterDid rq) then (d, CreateBadRequest)
        else
          let jobId = orEmpty (cq_jobId rq); recruiterDid = orEmpty (cq_recruiterDid rq) in
          (case findApplicationFor jobId seekerDid (applications d) of
             Some existing \<Rightarrow> (d, CreateAlreadyApplied existing)
           | None \<Rightarrow>
               if seekerDid = [] then (d, CreateFailed)
               else
                 let selectedIds = (case cq_sharedVcIds rq of None \<Rightarrow> [] | Some xs \<Rightarrow> xs);
                     appDoc = \<lparr> app_id = aenv_newId env, app_jobId = jobId,
                                app_seekerDid = seekerDid, app_recruiterDid = recruiterDid,
                                app_sharedVcIds = selectedIds, app_status = Submitted,
                                app_seekerProfile = Some defaultSnapshot \<rparr>;
                     d1 = d\<lparr> applications := applications d @ [appDoc] \<rparr>;
                     found = findOwnedActive selectedIds seekerDid (credentials d1);
                     validSelected = validSelectedOf selectedIds found
                 in (case (if selectedIds \<noteq> [] \<and> validSelected \<noteq> []
                           then (case buildBulkOps (aenv_jsonParse env) found
                                        (mkSharedProof (app_id appDoc) jobId seekerDid recruiterDid)
                                        validSelected of
                                   Inl e \<Rightarrow> Inl e
                                 | Inr ops \<Rightarrow>
                                     Inr (d1\<lparr> sharedProofs := bulkWrite ops (sharedProofs d1),
                                              applications :=
                                                update_first (\<lambda>a. app_id a = app_id appDoc)
                                                  (\<lambda>a. a\<lparr> app_sharedVcIds := validSelected \<rparr>)
                                                  (applications d1) \<rparr>))
                           else Inr d1) of
                       Inl e \<Rightarrow> (d1, CreateFailed)
                     | Inr d2 \<Rightarrow>
                         (attachSeekerSnapshot (app_id appDoc) seekerDid d2,
                          Created appDoc (length selectedIds)))))"

section \<open>Ledger client and trust status\<close>

text \<open>
  Source: \<^verbatim>\<open>src/services/chain.service.ts\<close> and \<^verbatim>\<open>computeTrustStatusForJob\<close> of
  \<^verbatim>\<open>src/routes/jobs.ts\<close>. The three environment variables are fields of \<open>chain_config\<close>.
  The contract calls are parameters: \<^verbatim>\<open>issueBadge\<close> followed by \<^verbatim>\<open>tx.wait()\<close> gives the
  receipt hash, \<^verbatim>\<open>getBadge\<close> gives level and status code, and \<open>None\<close> stands for a
  rejected promise.
\<close>

record chain_config =
  cfg_POLYGON_RPC :: "string option"
  cfg_TRUST_BADGE_REGISTRY_ADDR :: "string option"
  cfg_SERVER_PK :: "string option"

record ledger =
  ledger_issueBadge :: "string \<Rightarrow> nat \<Rightarrow> string option"
  ledger_getBadge :: "string \<Rightarrow> (nat \<times> nat) option"

text \<open>
  \<^verbatim>\<open>getTrustBadgeRegistryContract\<close> with \<^verbatim>\<open>getRelayerSigner\<close>: whether a contract handle
  is obtained (\<open>True\<close>) or an \<^verbatim>\<open>Error\<close> is thrown.
\<close>

definition getTrustBadgeRegistryContract :: "chain_config \<Rightarrow> bool" where
  "getTrustBadgeRegistryContract cfg =
     (if \<not> truthy (cfg_TRUST_BADGE_REGISTRY_ADDR cfg) then False
      else if \<not> truthy (cfg_POLYGON_RPC cfg) \<or> \<not> truthy (cfg_SERVER_PK cfg) then False
      else True)"


datatype trust_status = TrustActive | TrustSuspended | TrustRevoked | TrustNone

definition getRecruiterTrustStatusFromChain :: "chain_config \<Rightarrow> ledger \<Rightarrow> string \<Rightarrow> trust_status" where
  "getRecruiterTrustStatusFromChain cfg l did =
     (if \<not> getTrustBadgeRegistryContract cfg then TrustNone
      else (case ledger_getBadge l did of
              None \<Rightarrow> TrustNone
            | Some (level, status) \<Rightarrow>
                if level = 0 then TrustNone
                else if status = 1 then TrustActive
                else if status = 2 then TrustSuspended
                else if status = 3 then TrustRevoked
                else TrustNone))"

definition computeTrustStatusForJob ::
  "chain_config \<Rightarrow> ledger \<Rightarrow> recruiter list \<Rightarrow> string \<Rightarrow> trust_status" where
  "computeTrustStatusForJob cfg l rs didOwner =
     (if truthy (cfg_TRUST_BADGE_REGISTRY_ADDR cfg)
      then getRecruiterTrustStatusFromChain cfg l didOwner
      else (case findRecruiterByDid didOwner rs of
              None \<Rightarrow> TrustNone
            | Some recruiter \<Rightarrow>
                (case rec_badge recruiter of
                   None \<Rightarrow> TrustNone
                 | Some b \<Rightarrow> if badge_verified b then TrustActive else TrustNone)))"

section \<open>Badge issuance: POST /issuer/recruiters/:id/approve\<close>












subsection \<open>Key material of the issuer: \<^verbatim>\<open>ensureBbsKeyForIssuer\<close>\<close>








subsection \<open>Signing: \<^verbatim>\<open>callBbsIssue\<close> and \<^verbatim>\<open>issueSimpleVc\<close>\<close>



subsection \<open>The handler\<close>








section \<open>Seeker onboarding: POST /seekers/onboard\<close>

text \<open>
  Sources: \<^verbatim>\<open>src/services/seekerIdentity.ts\<close> and the two versions of
  \<^verbatim>\<open>src/routes/seekers.ts\<close> in the repository: the one that takes the identity from the
  session and the older one that takes email and DID from the request body.
\<close>

definition mustGetIdentity :: "session option \<Rightarrow> string + session" where
  "mustGetIdentity req_session =
     (let s = (case req_session of None \<Rightarrow> emptySession | Some x \<Rightarrow> x);
          did = map_option trim (s_did s);
          email = map_option (\<lambda>e. toLowerCase (trim e)) (s_email s);
          wallet_address = map_option trim (s_wallet_address s)
      in if \<not> truthy did \<and> \<not> truthy email then Inl ''Missing session identity (did/email)''
         else Inr \<lparr> s_did = did, s_privyUserId = None, s_email = email,
                    s_wallet_address = wallet_address \<rparr>)"

text \<open>The regular expressions \<^verbatim>\<open>/^0x[a-fA-F0-9]{40}$/\<close> and \<^verbatim>\<open>/0x[a-fA-F0-9]{40}/\<close>.\<close>

definition is_hex :: "char \<Rightarrow> bool" where
  "is_hex c =
     (let n = (of_char c :: nat)
      in (48 \<le> n \<and> n \<le> 57) \<or> (65 \<le> n \<and> n \<le> 70) \<or> (97 \<le> n \<and> n \<le> 102))"

definition isWalletAddress :: "string \<Rightarrow> bool" where
  "isWalletAddress w = (length w = 42 \<and> take 2 w = ''0x'' \<and> list_all is_hex (drop 2 w))"

fun matchAddress :: "string \<Rightarrow> string option" where
  "matchAddress [] = None"
| "matchAddress (c # cs) =
     (if isWalletAddress (take 42 (c # cs)) then Some (take 42 (c # cs)) else matchAddress cs)"

definition deriveDidFromSession :: "session \<Rightarrow> string option" where
  "deriveDidFromSession session =
     (let sDid = map_option trim (s_did session);
          w = map_option trim (s_wallet_address session)
      in if truthy sDid \<and> take 8 (orEmpty sDid) = ''did:pkh:'' then sDid
         else if truthy w \<and> isWalletAddress (orEmpty w)
              then Some (''did:pkh:eip155:80002:'' @ toLowerCase (orEmpty w))
         else if truthy sDid then sDid
         else None)"

definition findSeekerByEmail :: "string \<Rightarrow> seeker list \<Rightarrow> seeker option" where
  "findSeekerByEmail e hs = find (\<lambda>h. sk_email h = Some e) hs"

definition findSeekerBySession :: "session option \<Rightarrow> seeker list \<Rightarrow> string + seeker option" where
  "findSeekerBySession req_session hs =
     (case mustGetIdentity req_session of
        Inl e \<Rightarrow> Inl e
      | Inr s \<Rightarrow>
          let byDid = (if truthy (s_did s) then findSeekerByDid (orEmpty (s_did s)) hs else None);
              byDerived = (if truthy (s_wallet_address s)
                              \<and> isWalletAddress (orEmpty (s_wallet_address s))
                           then findSeekerByDid
                                  (''did:pkh:eip155:80002:''
                                     @ toLowerCase (orEmpty (s_wallet_address s))) hs
                           else None);
              byEmail = (if truthy (s_email s) then findSeekerByEmail (orEmpty (s_email s)) hs
                         else None)
          in Inr (if byDid \<noteq> None then byDid
                  else if byDerived \<noteq> None then byDerived
                  else byEmail))"

text \<open>
  The request body, the environment and what \<^verbatim>\<open>doc.save()\<close> does: it validates the
  document against the schema (\<^verbatim>\<open>email\<close> and \<^verbatim>\<open>name\<close> required, \<^verbatim>\<open>visibility\<close> in its
  enumeration), the unique index on \<^verbatim>\<open>did\<close> rejects a new or changed DID that another
  document holds, and the document replaces the stored one with its \<^verbatim>\<open>_id\<close> or is
  inserted. The id of a new document is a parameter.
\<close>

record onboard_body =
  ob_email :: "string option"
  ob_name :: "string option"
  ob_did :: "string option"
  ob_homeLocation :: "string option"
  ob_classification :: "string option"
  ob_subClass :: "string option"
  ob_visibility :: "string option"
  ob_vcOnly :: "bool option"
  ob_consentShareVC :: "bool option"
  ob_antiPhishAck :: "bool option"
  ob_careerSeed :: "json option"
  ob_onboarded :: "bool option"

record onboard_env =
  oe_newId :: string
  oe_DID_REGISTRY_ADDRESS :: "string option"

datatype save_error = ValidationError | DuplicateDid

definition validSeeker :: "seeker \<Rightarrow> bool" where
  "validSeeker doc =
     (truthy (sk_email doc) \<and> truthy (sk_name doc)
      \<and> (case sk_visibility doc of
            None \<Rightarrow> True
          | Some v \<Rightarrow> v \<in> set [''public'', ''standard'', ''limited'', ''hidden'']))"

definition saveSeeker :: "seeker \<Rightarrow> seeker list \<Rightarrow> save_error + seeker list" where
  "saveSeeker doc hs =
     (let stored = find (\<lambda>h. sk_id h = sk_id doc) hs;
          didWritten = (case stored of None \<Rightarrow> True | Some old \<Rightarrow> sk_did old \<noteq> sk_did doc)
      in if \<not> validSeeker doc then Inl ValidationError
         else if didWritten \<and> sk_did doc \<noteq> None
                 \<and> list_ex (\<lambda>h. sk_id h \<noteq> sk_id doc \<and> sk_did h = sk_did doc) hs
              then Inl DuplicateDid
         else Inr (if stored = None then hs @ [doc]
                   else update_first (\<lambda>h. sk_id h = sk_id doc) (\<lambda>_. doc) hs))"

text \<open>
  What both versions of the route do with the document once it is found or constructed.
  \<^verbatim>\<open>new Seeker({email, name, onboarded})\<close> fills in the schema defaults. The test
  \<^verbatim>\<open>careerSeed?.title || careerSeed?.company\<close> reads two fields of the JSON value. The DID
  registration on the ledger is best effort: it is attempted when the DID holds an address
  and the registry is configured, and its outcome is logged only.
\<close>

definition emptyProfile :: seeker_profile where
  "emptyProfile = \<lparr> prof_careerHistory = [], prof_skills = [], prof_languages = [],
     prof_resumeInfo = None \<rparr>"

definition newSeeker :: "string \<Rightarrow> string option \<Rightarrow> string option \<Rightarrow> bool \<Rightarrow> seeker" where
  "newSeeker newId email name onboarded =
     \<lparr> sk_id = newId, sk_did = None, sk_email = email, sk_name = name,
       sk_onboarded = onboarded, sk_homeLocation = None, sk_classification = None,
       sk_subClass = None, sk_visibility = Some ''hidden'', sk_vcOnly = Some False,
       sk_consentShareVC = Some False, sk_antiPhishAck = Some False,
       sk_profile = Some emptyProfile, sk_vcs = [], sk_defaultSharedVcIds = [] \<rparr>"

definition fieldTruthy :: "string \<Rightarrow> json \<Rightarrow> bool" where
  "fieldTruthy k j =
     (case j of
        JObj kvs \<Rightarrow> (case map_of kvs k of None \<Rightarrow> False | Some v \<Rightarrow> jsonTruthy v)
      | _ \<Rightarrow> False)"

definition applyBodyFields :: "onboard_body \<Rightarrow> seeker \<Rightarrow> seeker" where
  "applyBodyFields body doc =
     doc\<lparr> sk_onboarded := (case ob_onboarded body of
                              None \<Rightarrow> sk_onboarded doc
                            | Some b \<Rightarrow> sk_onboarded doc \<or> b),
          sk_homeLocation := ob_homeLocation body,
          sk_classification := ob_classification body,
          sk_subClass := ob_subClass body,
          sk_visibility := ob_visibility body,
          sk_vcOnly := ob_vcOnly body,
          sk_consentShareVC := ob_consentShareVC body,
          sk_antiPhishAck := ob_antiPhishAck body,
          sk_profile := (case ob_careerSeed body of
                           None \<Rightarrow> sk_profile doc
                         | Some seed \<Rightarrow>
                             if fieldTruthy ''title'' seed \<or> fieldTruthy ''company'' seed
                             then Some (emptyProfile\<lparr> prof_careerHistory := [seed] \<rparr>)
                             else sk_profile doc) \<rparr>"

datatype onboard_effect = DidRegistrationCall string string

definition registrationAttempt :: "onboard_env \<Rightarrow> string \<Rightarrow> onboard_effect list" where
  "registrationAttempt env did =
     (case matchAddress did of
        None \<Rightarrow> []
      | Some walletAddress \<Rightarrow>
          if truthy (oe_DID_REGISTRY_ADDRESS env) then [DidRegistrationCall walletAddress did]
          else [])"

text \<open>\<^verbatim>\<open>if (didToStore && !doc.did) doc.did = didToStore\<close>, with the registration attempt.\<close>

definition assignDidIfEmpty ::
  "onboard_env \<Rightarrow> string option \<Rightarrow> seeker \<Rightarrow> seeker \<times> onboard_effect list" where
  "assignDidIfEmpty env didToStore doc =
     (if truthy didToStore \<and> \<not> truthy (sk_did doc)
      then (doc\<lparr> sk_did := didToStore \<rparr>, registrationAttempt env (orEmpty didToStore))
      else (doc, []))"

datatype onboard_response =
  OnboardForbidden | OnboardBadRequest | OnboardUnauthenticated | OnboardConflict
  | OnboardFailed | OnboardOk seeker

record onboard_request =
  oq_user :: "user option"
  oq_session :: "session option"
  oq_body :: onboard_body

text \<open>
  The session-derived version: gate \<^verbatim>\<open>requireRoleStateIn("seeker", ["none", "active"])\<close>,
  then the handler. The result is the store, the request's user with the seeker role the
  handler writes, the registration attempts and the response.
\<close>

definition onboardSeeker ::
  "onboard_env \<Rightarrow> onboard_request \<Rightarrow> db
     \<Rightarrow> db \<times> user option \<times> onboard_effect list \<times> onboard_response" where
  "onboardSeeker env rq d =
     (if \<not> requireRoleStateIn Seeker [RoleNone, RoleActive] (oq_user rq)
      then (d, oq_user rq, [], OnboardForbidden)
      else
        (case mustGetIdentity (oq_session rq) of
           Inl e \<Rightarrow> (d, oq_user rq, [], OnboardUnauthenticated)
         | Inr session \<Rightarrow>
             let body = oq_body rq in
             if \<not> truthy (ob_name body) \<or> trim (orEmpty (ob_name body)) = []
             then (d, oq_user rq, [], OnboardBadRequest)
             else
               (case findSeekerBySession (oq_session rq) (seekers d) of
                  Inl e \<Rightarrow> (d, oq_user rq, [], OnboardUnauthenticated)
                | Inr found \<Rightarrow>
                    let name = trim (orEmpty (ob_name body));
                        doc0 = (case found of
                                  Some x \<Rightarrow> x
                                | None \<Rightarrow> newSeeker (oe_newId env) (s_email session) (Some name)
                                            (ob_onboarded body = Some True));
                        doc1 = (if truthy (s_email session) \<and> \<not> truthy (sk_email doc0)
                                then doc0\<lparr> sk_email := s_email session \<rparr> else doc0);
                        (doc2, log) = assignDidIfEmpty env (deriveDidFromSession session) doc1;
                        doc3 = applyBodyFields body (doc2\<lparr> sk_name := Some name \<rparr>)
                    in (case saveSeeker doc3 (seekers d) of
                          Inl DuplicateDid \<Rightarrow> (d, oq_user rq, log, OnboardConflict)
                        | Inl ValidationError \<Rightarrow> (d, oq_user rq, log, OnboardFailed)
                        | Inr hs \<Rightarrow>
                            (d\<lparr> seekers := hs \<rparr>,
                             map_option (\<lambda>u. u\<lparr> roles_seeker :=
                                                   (if sk_onboarded doc3 then RoleActive
                                                    else RoleNone) \<rparr>) (oq_user rq),
                             log, OnboardOk doc3)))))"

text \<open>
  The older version: email, name and DID come from the body; the document is looked up
  by \<^verbatim>\<open>{ $or: [{ did }, { email }] }\<close>, or by email alone when no DID is sent.
\<close>

definition onboardSeekerLegacy ::
  "onboard_env \<Rightarrow> onboard_body \<Rightarrow> db \<Rightarrow> db \<times> onboard_effect list \<times> onboard_response" where
  "onboardSeekerLegacy env body d =
     (if \<not> truthy (ob_email body) \<or> \<not> truthy (ob_name body) then (d, [], OnboardBadRequest)
      else
        let found = (if truthy (ob_did body)
                     then find (\<lambda>h. sk_did h = ob_did body \<or> sk_email h = ob_email body) (seekers d)
                     else find (\<lambda>h. sk_email h = ob_email body) (seekers d));
            doc0 = (case found of
                      Some x \<Rightarrow> x
                    | None \<Rightarrow> newSeeker (oe_newId env) (ob_email body) (ob_name body)
                                (ob_onboarded body = Some True));
            (doc1, log) = assignDidIfEmpty env (ob_did body) doc0;
            doc2 = applyBodyFields body (doc1\<lparr> sk_name := ob_name body \<rparr>)
        in (case saveSeeker doc2 (seekers d) of
              Inl DuplicateDid \<Rightarrow> (d, log, OnboardConflict)
            | Inl ValidationError \<Rightarrow> (d, log, OnboardFailed)
            | Inr hs \<Rightarrow> (d\<lparr> seekers := hs \<rparr>, log, OnboardOk doc2)))"

section \<open>Notions used to state the properties\<close>

text \<open>
  The current status of a credential in the Credential Store; a credential id that the
  holder owns with status \<open>active\<close>; the condition that every \<^verbatim>\<open>vcRaw\<close> stored as a
  string is parsed by \<^verbatim>\<open>JSON.parse\<close>; the clone that the routes store for an id.
\<close>

definition credentialStatus :: "string \<Rightarrow> credential list \<Rightarrow> cred_status option" where
  "credentialStatus cid creds =
     map_option cred_status (find (\<lambda>c. cred_credentialId c = cid) creds)"

definition ownedActive :: "string \<Rightarrow> credential list \<Rightarrow> string \<Rightarrow> bool" where
  "ownedActive holder creds cid =
     (\<exists>c\<in>set creds. cred_credentialId c = cid \<and> cred_subjectDid c = holder
                     \<and> cred_status c = CredActive)"

definition parsesStored :: "(string \<Rightarrow> json option) \<Rightarrow> credential list \<Rightarrow> bool" where
  "parsesStored parse creds =
     (\<forall>c\<in>set creds. \<forall>t. cred_vcRaw c = Some (JStr t) \<longrightarrow> parse t \<noteq> None)"

definition clonedDoc :: "(string \<Rightarrow> json option) \<Rightarrow> credential list \<Rightarrow> string \<Rightarrow> json option" where
  "clonedDoc parse found credId =
     (case deepCloneVcRawUntouched parse
             (case byIdGet found credId of None \<Rightarrow> None | Some c \<Rightarrow> cred_vcRaw c) of
        Inl e \<Rightarrow> None | Inr vcObj \<Rightarrow> vcObj)"

section \<open>Example data\<close>

text \<open>
  A small store used to instantiate the theorems below: an issuer, an organisation with
  an active trust badge, a holder with one employment credential that is shared into one
  application.
\<close>

definition ex_issuer_session :: session where
  "ex_issuer_session = \<lparr> s_did = Some ''did:ex:issuer'', s_privyUserId = Some ''p1'',
     s_email = None, s_wallet_address = None \<rparr>"

definition ex_issuer_user :: user where
  "ex_issuer_user = \<lparr> u_privyUserId = ''p1'', u_email = None, u_did = Some ''did:ex:issuer'',
     u_wallet_address = None, roles_seeker = RoleNone, roles_recruiter = RoleNone,
     roles_issuer = RoleActive \<rparr>"

definition ex_badge :: badge where
  "ex_badge = absentBadge \<lparr> badge_verified := True, badge_status := Some ''Active'',
     badge_level := Some 1, badge_txHash := Some ''0xaa'' \<rparr>"

definition ex_org :: recruiter where
  "ex_org = \<lparr> rec_id = ''r1'', rec_did = ''did:ex:org'', rec_orgLegalName = Some ''Org'',
     rec_contactEmail = Some ''hr@org.ex'', rec_website = None, rec_onboarded = True,
     rec_kycStatus = KycApproved, rec_badge = Some ex_badge \<rparr>"

definition ex_org_session :: session where
  "ex_org_session = \<lparr> s_did = Some ''did:ex:org'', s_privyUserId = Some ''p2'',
     s_email = None, s_wallet_address = None \<rparr>"

definition ex_org_user :: user where
  "ex_org_user = \<lparr> u_privyUserId = ''p2'', u_email = None, u_did = Some ''did:ex:org'',
     u_wallet_address = None, roles_seeker = RoleNone, roles_recruiter = RoleActive,
     roles_issuer = RoleNone \<rparr>"

definition ex_trust_cred :: credential where
  "ex_trust_cred = \<lparr> cred_credentialId = ''vc:org'', cred_subjectDid = ''did:ex:org'',
     cred_issuerDid = ''did:ex:issuer'', cred_title = None,
     cred_type = [''VerifiableCredential'', ''RecruiterCredential''],
     cred_issuanceDate = None, cred_status = CredActive, cred_onChainTxHash = Some ''0xaa'',
     cred_revocationTxHash = None, cred_vcRaw = Some (JObj [(''id'', JStr ''vc:org'')]),
     cred_network = None \<rparr>"

definition ex_personal_cred :: credential where
  "ex_personal_cred = \<lparr> cred_credentialId = ''vc:emp'', cred_subjectDid = ''did:ex:holder'',
     cred_issuerDid = ''did:ex:issuer'', cred_title = None,
     cred_type = [''VerifiableCredential'', ''EmploymentCredential''],
     cred_issuanceDate = None, cred_status = CredActive, cred_onChainTxHash = None,
     cred_revocationTxHash = None, cred_vcRaw = Some (JObj [(''id'', JStr ''vc:emp'')]),
     cred_network = None \<rparr>"

definition ex_holder :: seeker where
  "ex_holder = \<lparr> sk_id = ''s1'', sk_did = Some ''did:ex:holder'', sk_email = Some ''h@ex.org'',
     sk_name = Some ''H'', sk_onboarded = True, sk_homeLocation = None,
     sk_classification = None, sk_subClass = None, sk_visibility = None, sk_vcOnly = None,
     sk_consentShareVC = None, sk_antiPhishAck = None, sk_profile = None,
     sk_vcs = [\<lparr> vc_id = Some ''c1'', vc_section = Some ''career'', vc_title = None,
                 vc_issuerDid = Some ''did:ex:issuer'', vc_status = Some ''active'',
                 vc_issuedAt = None, vc_credentialId = Some ''vc:emp'' \<rparr>],
     sk_defaultSharedVcIds = [''vc:emp''] \<rparr>"

definition ex_app :: application where
  "ex_app = \<lparr> app_id = ''a1'', app_jobId = ''j1'', app_seekerDid = ''did:ex:holder'',
     app_recruiterDid = ''did:ex:org'', app_sharedVcIds = [''vc:emp''],
     app_status = Submitted, app_seekerProfile = None \<rparr>"

definition ex_proof :: shared_proof where
  "ex_proof = \<lparr> sp_applicationId = ''a1'', sp_jobId = Some ''j1'',
     sp_seekerDid = ''did:ex:holder'', sp_recruiterDid = ''did:ex:org'', sp_vcId = ''vc:emp'',
     sp_derivedProof = None, sp_nonce = None,
     sp_revealedDocument = Some (JObj [(''id'', JStr ''vc:emp'')]) \<rparr>"

definition ex_issuer :: issuer where
  "ex_issuer = \<lparr> iss_id = ''i1'', iss_did = ''did:ex:issuer'', iss_email = None, iss_name = None,
     iss_orgName = Some ''Org'', iss_orgType = Some ''company'', iss_onboarded = True,
     iss_bbsPrivateKeyJwk = None, iss_bbsPublicKeyJwk = None,
     iss_bbsVerificationMethodId = None \<rparr>"

definition ex_db :: db where
  "ex_db = \<lparr> credentials = [ex_trust_cred, ex_personal_cred], recruiters = [ex_org],
     issuers = [ex_issuer], seekers = [ex_holder], applications = [ex_app], sharedProofs = [ex_proof] \<rparr>"

definition ex_tx :: tx where
  "ex_tx = \<lparr> tx_txHash = ''0xbb'', tx_network = ''polygon-amoy'' \<rparr>"

definition ex_env_ok :: revoke_env where
  "ex_env_ok = \<lparr> env_now = 7, env_revokeRecruiterBadgeOnChain = (\<lambda>_. Some ex_tx),
     env_dbThrows = (\<lambda>_. False) \<rparr>"

definition ex_env_ledger_down :: revoke_env where
  "ex_env_ledger_down = \<lparr> env_now = 7, env_revokeRecruiterBadgeOnChain = (\<lambda>_. None),
     env_dbThrows = (\<lambda>_. False) \<rparr>"

definition ex_env_source :: revoke_env where
  "ex_env_source = sourceRevokeEnv 7 (\<lambda>_. False)"

definition ex_revoke_org :: revoke_request where
  "ex_revoke_org = \<lparr> rq_user = Some ex_issuer_user, rq_session = Some ex_issuer_session,
     rq_credentialId = Some ''vc:org'', rq_reason = None \<rparr>"

definition ex_revoke_emp :: revoke_request where
  "ex_revoke_emp = \<lparr> rq_user = Some ex_issuer_user, rq_session = Some ex_issuer_session,
     rq_credentialId = Some ''vc:emp'', rq_reason = Some ''left'' \<rparr>"

definition ex_foreign_cred :: credential where
  "ex_foreign_cred = \<lparr> cred_credentialId = ''vc:foreign'', cred_subjectDid = ''did:ex:other'',
     cred_issuerDid = ''did:ex:issuer'', cred_title = None,
     cred_type = [''VerifiableCredential'', ''EducationCredential''],
     cred_issuanceDate = None, cred_status = CredActive, cred_onChainTxHash = None,
     cred_revocationTxHash = None, cred_vcRaw = Some (JObj [(''id'', JStr ''vc:foreign'')]),
     cred_network = None \<rparr>"

definition ex_db_foreign :: db where
  "ex_db_foreign = ex_db\<lparr> credentials := [ex_trust_cred, ex_personal_cred, ex_foreign_cred] \<rparr>"

definition ex_holder_session :: session where
  "ex_holder_session = \<lparr> s_did = Some ''did:ex:holder'', s_privyUserId = Some ''p3'',
     s_email = Some ''h@ex.org'', s_wallet_address = None \<rparr>"

definition ex_app_env :: app_env where
  "ex_app_env = \<lparr> aenv_jsonParse = (\<lambda>_. None), aenv_newId = ''a2'' \<rparr>"

definition ex_patch_foreign :: patch_request where
  "ex_patch_foreign = \<lparr> pq_session = Some ex_holder_session, pq_id = ''a1'',
     pq_sharedVcIds = Some [''vc:foreign''] \<rparr>"

definition ex_patch_both :: patch_request where
  "ex_patch_both = \<lparr> pq_session = Some ex_holder_session, pq_id = ''a1'',
     pq_sharedVcIds = Some [''vc:emp'', ''vc:foreign''] \<rparr>"

definition ex_create_new :: create_request where
  "ex_create_new = \<lparr> cq_session = Some ex_holder_session, cq_jobId = Some ''j2'',
     cq_recruiterDid = Some ''did:ex:org'', cq_sharedVcIds = Some [''vc:emp'', ''vc:foreign''] \<rparr>"

definition ex_create_again :: create_request where
  "ex_create_again = \<lparr> cq_session = Some ex_holder_session, cq_jobId = Some ''j1'',
     cq_recruiterDid = Some ''did:ex:org'', cq_sharedVcIds = Some [''vc:emp''] \<rparr>"

definition ex_db_revoked :: db where
  "ex_db_revoked = ex_db\<lparr> credentials :=
     [ex_trust_cred, ex_personal_cred\<lparr> cred_status := CredRevoked \<rparr>] \<rparr>"

definition ex_cfg :: chain_config where
  "ex_cfg = \<lparr> cfg_POLYGON_RPC = Some ''https://rpc.ex'',
     cfg_TRUST_BADGE_REGISTRY_ADDR = Some ''0xregistry'', cfg_SERVER_PK = Some ''0xkey'' \<rparr>"

definition ex_cfg_no_registry :: chain_config where
  "ex_cfg_no_registry = ex_cfg\<lparr> cfg_TRUST_BADGE_REGISTRY_ADDR := None \<rparr>"


definition ex_ledger_down :: ledger where
  "ex_ledger_down = \<lparr> ledger_issueBadge = (\<lambda>_ _. None), ledger_getBadge = (\<lambda>_. None) \<rparr>"










definition ex_onboard_env :: onboard_env where
  "ex_onboard_env = \<lparr> oe_newId = ''s2'', oe_DID_REGISTRY_ADDRESS = Some ''0xdidregistry'' \<rparr>"

definition ex_onboard_body :: onboard_body where
  "ex_onboard_body = \<lparr> ob_email = Some ''h@ex.org'', ob_name = Some ''H again'',
     ob_did = Some ''did:ex:changed'', ob_homeLocation = Some ''KL'', ob_classification = None,
     ob_subClass = None, ob_visibility = Some ''public'', ob_vcOnly = None,
     ob_consentShareVC = None, ob_antiPhishAck = None, ob_careerSeed = None,
     ob_onboarded = Some True \<rparr>"

definition ex_onboard_rq :: onboard_request where
  "ex_onboard_rq = \<lparr> oq_user = None,
     oq_session = Some \<lparr> s_did = Some ''did:ex:changed'', s_privyUserId = Some ''p3'',
                          s_email = Some ''H@ex.org '',
                          s_wallet_address = Some ''0x00000000000000000000000000000000000000AB'' \<rparr>,
     oq_body = ex_onboard_body \<rparr>"

section \<open>Properties\<close>

subsection \<open>Facts about the store operations\<close>

lemma find_holds: "find P xs = Some x \<Longrightarrow> P x"
  by (induction xs) (auto split: if_splits)

lemma find_update_first:
  "find P xs = Some x \<Longrightarrow> P (f x) \<Longrightarrow> find P (update_first P f xs) = Some (f x)"
  by (induction xs) (auto split: if_splits)

lemma find_update_first_same:
  "find P xs = Some x \<Longrightarrow> (\<And>y. P (f y) = P y) \<Longrightarrow>
   find P (update_first P f xs) = Some (f x)"
  by (induction xs) (auto split: if_splits)

lemma find_update_first_none:
  "find P xs = None \<Longrightarrow> update_first P f xs = xs"
  by (induction xs) (auto split: if_splits)


subsection \<open>Role-state derivation\<close>

text \<open>
  Claim C6. The recruiter role state is a function of the recruiter record alone. It is
  \<open>none\<close> when there is no record or the record is not onboarded, whatever badge is
  stored. For an onboarded record it is read off the stored badge status: \<open>active\<close> for
  \<^verbatim>\<open>Active\<close>, \<open>pending\<close> for \<^verbatim>\<open>Pending\<close>, \<open>rejected\<close> for \<^verbatim>\<open>Revoked\<close> and for
  \<^verbatim>\<open>Rejected\<close>, and \<open>pending\<close> for every other stored status, for a badge without a
  status and for a record without a badge. So the state \<open>active\<close> is returned only for an
  onboarded record whose stored badge status is \<^verbatim>\<open>Active\<close>.
\<close>

theorem computeRecruiterRoleState_table:
  "computeRecruiterRoleState None = RoleNone
   \<and> (\<not> rec_onboarded r \<longrightarrow> computeRecruiterRoleState (Some r) = RoleNone)
   \<and> (rec_onboarded r \<longrightarrow>
        (rec_badge r = None \<longrightarrow> computeRecruiterRoleState (Some r) = RolePending)
        \<and> (\<forall>b. rec_badge r = Some b \<longrightarrow>
               (badge_status b = None \<longrightarrow> computeRecruiterRoleState (Some r) = RolePending)
               \<and> (badge_status b = Some ''Active''
                    \<longrightarrow> computeRecruiterRoleState (Some r) = RoleActive)
               \<and> (badge_status b = Some ''Pending''
                    \<longrightarrow> computeRecruiterRoleState (Some r) = RolePending)
               \<and> (badge_status b = Some ''Revoked''
                    \<longrightarrow> computeRecruiterRoleState (Some r) = RoleRejected)
               \<and> (badge_status b = Some ''Rejected''
                    \<longrightarrow> computeRecruiterRoleState (Some r) = RoleRejected)
               \<and> (\<forall>st. badge_status b = Some st
                         \<and> st \<notin> {''Active'', ''Pending'', ''Revoked'', ''Rejected''}
                    \<longrightarrow> computeRecruiterRoleState (Some r) = RolePending)))
   \<and> (computeRecruiterRoleState (Some r) = RoleActive
        \<longrightarrow> rec_onboarded r \<and> (\<exists>b. rec_badge r = Some b \<and> badge_status b = Some ''Active''))"
  by (auto simp: computeRecruiterRoleState_def badgeStatusOrNone_def Let_def
           split: option.splits if_splits)

theorem computeRecruiterRoleState_table_witness:
  "computeRecruiterRoleState (Some (ex_org\<lparr> rec_onboarded := False \<rparr>)) = RoleNone
   \<and> computeRecruiterRoleState (Some ex_org) = RoleActive
   \<and> computeRecruiterRoleState (Some (ex_org\<lparr> rec_badge := None \<rparr>)) = RolePending
   \<and> computeRecruiterRoleState
        (Some (ex_org\<lparr> rec_badge := Some (ex_badge\<lparr> badge_status := Some ''Pending'' \<rparr>) \<rparr>))
       = RolePending
   \<and> computeRecruiterRoleState
        (Some (ex_org\<lparr> rec_badge := Some (ex_badge\<lparr> badge_status := Some ''Revoked'' \<rparr>) \<rparr>))
       = RoleRejected
   \<and> computeRecruiterRoleState
        (Some (ex_org\<lparr> rec_badge := Some (ex_badge\<lparr> badge_status := Some ''Suspended'' \<rparr>) \<rparr>))
       = RolePending"
proof -
  let ?off = "ex_org\<lparr> rec_onboarded := False \<rparr>"
  let ?nobadge = "ex_org\<lparr> rec_badge := None \<rparr>"
  let ?with = "\<lambda>st. ex_org\<lparr> rec_badge := Some (ex_badge\<lparr> badge_status := Some st \<rparr>) \<rparr>"
  have off: "\<not> rec_onboarded ?off" by simp
  have on: "rec_onboarded ex_org" "rec_onboarded ?nobadge" "\<And>st. rec_onboarded (?with st)"
    by (simp_all add: ex_org_def)
  have b0: "rec_badge ex_org = Some ex_badge" "badge_status ex_badge = Some ''Active''"
    by (simp_all add: ex_org_def ex_badge_def)
  have bn: "rec_badge ?nobadge = None" by simp
  have bw: "\<And>st. rec_badge (?with st) = Some (ex_badge\<lparr> badge_status := Some st \<rparr>)"
           "\<And>st. badge_status (ex_badge\<lparr> badge_status := Some st \<rparr>) = Some st"
    by simp_all
  have other: "''Suspended'' \<notin> {''Active'', ''Pending'', ''Revoked'', ''Rejected''}" by simp
  from computeRecruiterRoleState_table[of ?off] off
  have 1: "computeRecruiterRoleState (Some ?off) = RoleNone" by blast
  from computeRecruiterRoleState_table[of ex_org] on(1) b0
  have 2: "computeRecruiterRoleState (Some ex_org) = RoleActive" by blast
  from computeRecruiterRoleState_table[of ?nobadge] on(2) bn
  have 3: "computeRecruiterRoleState (Some ?nobadge) = RolePending" by blast
  from computeRecruiterRoleState_table[of "?with ''Pending''"] on(3) bw
  have 4: "computeRecruiterRoleState (Some (?with ''Pending'')) = RolePending" by blast
  from computeRecruiterRoleState_table[of "?with ''Revoked''"] on(3) bw
  have 5: "computeRecruiterRoleState (Some (?with ''Revoked'')) = RoleRejected" by blast
  from computeRecruiterRoleState_table[of "?with ''Suspended''"] on(3)
  have 6: "computeRecruiterRoleState (Some (?with ''Suspended'')) = RolePending" by simp
  from 1 2 3 4 5 6 show ?thesis by (intro conjI)
qed

subsection \<open>Revocation cascade\<close>

lemma revokeRecruiterBranch_cred:
  assumes "find (\<lambda>c. cred_credentialId c = cid \<and> cred_issuerDid c = iss) (credentials d) = Some c"
      and "cred_status c = CredRevoked"
  shows "case revokeRecruiterBranch env cid iss reason cred d of (d', log, r) \<Rightarrow>
           (\<exists>c'. findCredential cid iss (credentials d') = Some c' \<and> cred_status c' = CredRevoked)"
proof -
  have P: "cred_credentialId c = cid \<and> cred_issuerDid c = iss"
    using find_holds[OF assms(1)] .
  have "find (\<lambda>c. cred_credentialId c = cid \<and> cred_issuerDid c = iss)
          (update_first (\<lambda>c. cred_credentialId c = cid \<and> cred_issuerDid c = iss)
             (\<lambda>c. c\<lparr> cred_revocationTxHash := Some h \<rparr>) (credentials d))
        = Some (c\<lparr> cred_revocationTxHash := Some h \<rparr>)" for h
    using assms(1) P by (simp add: find_update_first)
  then show ?thesis
    using assms
    by (auto simp: revokeRecruiterBranch_def findCredential_def Let_def split: option.splits)
qed

lemma revokeSeekerBranch_cred:
  "credentials (fst (revokeSeekerBranch env cid cred d)) = credentials d"
  by (simp add: revokeSeekerBranch_def Let_def)

text \<open>
  Claim C1. When the issuer revokes an existing credential of its own and the status
  update of the Credential Store is carried out, the status write is the first effect the
  operation attempts: the ledger call, the badge write, the holder-cache repair and the
  disclosure cleanup all come after it. Whatever happens in those later steps (any store
  operation throwing, the ledger call failing), reading the credential again from the
  resulting store shows status \<open>revoked\<close>.
\<close>

theorem revoke_status_written_first_and_kept:
  assumes "rq_credentialId rq = Some cid" and "cid \<noteq> []"
      and "mustGetDid (rq_session rq) = Inr iss"
      and "requireRoleActive Issuer (rq_user rq)"
      and "findCredential cid iss (credentials d) = Some cred"
      and "\<not> env_dbThrows env OpFindCredential"
      and "\<not> env_dbThrows env OpUpdateCredentialStatus"
  shows "case revokeVcRoute env rq d of (d', log, resp) \<Rightarrow>
           (\<exists>c. findCredential cid iss (credentials d') = Some c \<and> cred_status c = CredRevoked)
           \<and> (\<exists>rest. log = CredentialStatusWrite cid # rest)"
proof -
  let ?P = "\<lambda>c. cred_credentialId c = cid \<and> cred_issuerDid c = iss"
  let ?d1 = "d\<lparr> credentials :=
               update_first ?P (\<lambda>c. c\<lparr> cred_status := CredRevoked \<rparr>) (credentials d) \<rparr>"
  have P: "?P cred"
    using assms(5) unfolding findCredential_def by (rule find_holds)
  have f1: "find ?P (credentials ?d1) = Some (cred\<lparr> cred_status := CredRevoked \<rparr>)"
    using assms(5) P by (simp add: findCredential_def find_update_first)
  have r: "case revokeRecruiterBranch env cid iss (rq_reason rq) cred ?d1 of (d', log, r) \<Rightarrow>
           (\<exists>c'. findCredential cid iss (credentials d') = Some c' \<and> cred_status c' = CredRevoked)"
    by (rule revokeRecruiterBranch_cred[OF f1]) simp
  have s: "credentials (fst (revokeSeekerBranch env cid cred ?d1)) = credentials ?d1"
    by (rule revokeSeekerBranch_cred)
  show ?thesis
    using assms r s f1
    by (auto simp: revokeVcRoute_def revokeVcHandler_def truthy_def orEmpty_def Let_def
                   findCredential_def
             split: prod.splits)
qed

theorem revoke_status_written_first_and_kept_witness:
  "snd (snd (revokeVcRoute ex_env_ledger_down ex_revoke_org ex_db)) = RevokeFailed
   \<and> (case revokeVcRoute ex_env_ledger_down ex_revoke_org ex_db of (d', log, resp) \<Rightarrow>
        (\<exists>c. findCredential ''vc:org'' ''did:ex:issuer'' (credentials d') = Some c
              \<and> cred_status c = CredRevoked)
        \<and> (\<exists>rest. log = CredentialStatusWrite ''vc:org'' # rest))"
proof -
  have h1: "rq_credentialId ex_revoke_org = Some ''vc:org''" by (simp add: ex_issuer_session_def ex_issuer_user_def ex_revoke_org_def)
  have h2: "''vc:org'' \<noteq> []" by simp
  have h3: "mustGetDid (rq_session ex_revoke_org) = Inr ''did:ex:issuer''" by code_simp
  have h4: "requireRoleActive Issuer (rq_user ex_revoke_org)" by code_simp
  have h5: "findCredential ''vc:org'' ''did:ex:issuer'' (credentials ex_db) = Some ex_trust_cred"
    by (simp add: findCredential_def ex_badge_def ex_org_def ex_trust_cred_def ex_personal_cred_def ex_holder_def ex_app_def ex_proof_def ex_issuer_def ex_db_def absentBadge_def)
  have h6: "\<not> env_dbThrows ex_env_ledger_down OpFindCredential" by (simp add: ex_env_ledger_down_def)
  have h7: "\<not> env_dbThrows ex_env_ledger_down OpUpdateCredentialStatus" by (simp add: ex_env_ledger_down_def)
  have r: "snd (snd (revokeVcRoute ex_env_ledger_down ex_revoke_org ex_db)) = RevokeFailed"
    by code_simp
  from revoke_status_written_first_and_kept[OF h1 h2 h3 h4 h5 h6 h7] r
  show ?thesis by simp
qed

text \<open>
  Claim C2. After the revocation operation has revoked a personal credential (one whose
  type list has no \<^verbatim>\<open>RecruiterCredential\<close>) and answered with success: the holder record
  found by the credential's subject DID has status \<open>revoked\<close> on every entry of its
  issued-credentials list that carries the credential id, and its
  \<^verbatim>\<open>defaultSharedVcIds\<close> does not contain the id; no application's \<^verbatim>\<open>sharedVcIds\<close>
  contains the id; no SharedProof record has the id as its \<^verbatim>\<open>vcId\<close>.
\<close>

theorem revoke_personal_cascade_complete:
  assumes "revokeVcRoute env rq d = (d', log, RevokeOk reason meta badgeRevocation)"
      and "rq_credentialId rq = Some cid"
      and "mustGetDid (rq_session rq) = Inr iss"
      and "findCredential cid iss (credentials d) = Some cred"
      and "''RecruiterCredential'' \<notin> set (cred_type cred)"
  shows "(\<forall>h. findSeekerByDid (cred_subjectDid cred) (seekers d') = Some h \<longrightarrow>
            (\<forall>v\<in>set (sk_vcs h). vc_credentialId v = Some cid \<longrightarrow> vc_status v = Some ''revoked'')
            \<and> cid \<notin> set (sk_defaultSharedVcIds h))
         \<and> (\<forall>a\<in>set (applications d'). cid \<notin> set (app_sharedVcIds a))
         \<and> (\<forall>p\<in>set (sharedProofs d'). sp_vcId p \<noteq> cid)"
proof -
  let ?d1 = "d\<lparr> credentials :=
               update_first (\<lambda>c. cred_credentialId c = cid \<and> cred_issuerDid c = iss)
                 (\<lambda>c. c\<lparr> cred_status := CredRevoked \<rparr>) (credentials d) \<rparr>"
  have br: "revokeSeekerBranch env cid cred ?d1 = (d', tl log, Returned badgeRevocation)"
    using assms
    by (auto simp: revokeVcRoute_def revokeVcHandler_def truthy_def orEmpty_def Let_def
             split: if_splits prod.splits outcome.splits)
  have sk: "seekers d' = update_first (\<lambda>h. sk_did h = Some (cred_subjectDid cred))
                           (markHolderRevoked cid) (seekers d)"
   and ap: "applications d' = update_many (\<lambda>a. cid \<in> set (app_sharedVcIds a))
                      (\<lambda>a. a\<lparr> app_sharedVcIds := pull cid (app_sharedVcIds a) \<rparr>) (applications d)"
   and sp: "sharedProofs d' = delete_many (\<lambda>p. sp_vcId p = cid) (sharedProofs d)"
    using br by (auto simp: revokeSeekerBranch_def Let_def split: if_splits)
  have a: "(\<forall>v\<in>set (sk_vcs h). vc_credentialId v = Some cid \<longrightarrow> vc_status v = Some ''revoked'')
            \<and> cid \<notin> set (sk_defaultSharedVcIds h)"
    if h: "findSeekerByDid (cred_subjectDid cred) (seekers d') = Some h" for h
  proof (cases "find (\<lambda>h. sk_did h = Some (cred_subjectDid cred)) (seekers d)")
    case None
    with h show ?thesis by (simp add: sk find_update_first_none findSeekerByDid_def)
  next
    case (Some h0)
    have "find (\<lambda>h. sk_did h = Some (cred_subjectDid cred)) (seekers d')
            = Some (markHolderRevoked cid h0)"
      unfolding sk by (rule find_update_first_same[OF Some]) (simp add: markHolderRevoked_def)
    with h have "h = markHolderRevoked cid h0" by (simp add: findSeekerByDid_def)
    then show ?thesis by (auto simp: markHolderRevoked_def pull_def)
  qed
  have b: "\<forall>a\<in>set (applications d'). cid \<notin> set (app_sharedVcIds a)"
    by (auto simp: ap update_many_def pull_def split: if_splits)
  have c: "\<forall>p\<in>set (sharedProofs d'). sp_vcId p \<noteq> cid"
    by (auto simp: sp delete_many_def)
  from a b c show ?thesis by blast
qed

theorem revoke_personal_cascade_complete_witness:
  "\<exists>d' log meta h.
      revokeVcRoute ex_env_ok ex_revoke_emp ex_db = (d', log, RevokeOk ''left'' meta None)
      \<and> findSeekerByDid ''did:ex:holder'' (seekers d') = Some h
      \<and> map vc_status (sk_vcs h) = [Some ''revoked'']
      \<and> ''vc:emp'' \<notin> set (sk_defaultSharedVcIds h)
      \<and> (\<forall>a\<in>set (applications d'). ''vc:emp'' \<notin> set (app_sharedVcIds a))
      \<and> (\<forall>p\<in>set (sharedProofs d'). sp_vcId p \<noteq> ''vc:emp'')"
proof -
  obtain d' log resp where run: "revokeVcRoute ex_env_ok ex_revoke_emp ex_db = (d', log, resp)"
    by (cases "revokeVcRoute ex_env_ok ex_revoke_emp ex_db") auto
  have "snd (snd (revokeVcRoute ex_env_ok ex_revoke_emp ex_db))
          = RevokeOk ''left'' (Some (ex_personal_cred\<lparr> cred_status := CredRevoked \<rparr>)) None"
    by code_simp
  with run have resp: "resp = RevokeOk ''left'' (Some (ex_personal_cred\<lparr> cred_status := CredRevoked \<rparr>)) None"
    by simp
  have "findSeekerByDid ''did:ex:holder'' (seekers (fst (revokeVcRoute ex_env_ok ex_revoke_emp ex_db)))
          = Some (markHolderRevoked ''vc:emp'' ex_holder)"
    by code_simp
  with run have h: "findSeekerByDid ''did:ex:holder'' (seekers d')
                      = Some (markHolderRevoked ''vc:emp'' ex_holder)"
    by simp
  have v: "map vc_status (sk_vcs (markHolderRevoked ''vc:emp'' ex_holder)) = [Some ''revoked'']"
    by code_simp
  have h2: "rq_credentialId ex_revoke_emp = Some ''vc:emp''" by (simp add: ex_issuer_session_def ex_issuer_user_def ex_revoke_emp_def)
  have h3: "mustGetDid (rq_session ex_revoke_emp) = Inr ''did:ex:issuer''" by code_simp
  have h4: "findCredential ''vc:emp'' ''did:ex:issuer'' (credentials ex_db) = Some ex_personal_cred"
    by (simp add: findCredential_def ex_badge_def ex_org_def ex_trust_cred_def ex_personal_cred_def ex_holder_def ex_app_def ex_proof_def ex_issuer_def ex_db_def absentBadge_def)
  have h5: "''RecruiterCredential'' \<notin> set (cred_type ex_personal_cred)" by (simp add: ex_personal_cred_def)
  have s: "cred_subjectDid ex_personal_cred = ''did:ex:holder''" by (simp add: ex_personal_cred_def)
  from revoke_personal_cascade_complete[OF run[unfolded resp] h2 h3 h4 h5] h v run resp s
  show ?thesis by auto
qed

lemma revokeVcRoute_recruiter_credential_throws:
  assumes "requireRoleActive Issuer (rq_user rq)"
      and "rq_credentialId rq = Some cid" and "cid \<noteq> []"
      and "mustGetDid (rq_session rq) = Inr iss"
      and "findCredential cid iss (credentials d) = Some cred"
      and "''RecruiterCredential'' \<in> set (cred_type cred)"
      and "findRecruiterByDid (cred_subjectDid cred) (recruiters d) = Some org"
  shows "snd (snd (revokeVcRoute (sourceRevokeEnv now dbThrows) rq d)) = RevokeFailed
         \<and> recruiters (fst (revokeVcRoute (sourceRevokeEnv now dbThrows) rq d)) = recruiters d"
  using assms
  by (simp add: revokeVcRoute_def revokeVcHandler_def revokeRecruiterBranch_def
        sourceRevokeEnv_def revokeRecruiterBadgeOnChain_def truthy_def orEmpty_def Let_def)

text \<open>
  Claim C7. The claim says that revoking an organisation's trust credential sets the
  organisation's badge status to \<open>Revoked\<close>, so that its recruiter role state becomes
  \<open>rejected\<close>. The route does not do so. In the example store the organisation
  \<open>did:ex:org\<close> is onboarded with KYC \<open>approved\<close> and badge \<open>Active\<close> (role state
  \<open>active\<close>), and the issuer revokes its trust credential \<open>vc:org\<close>, of type
  \<open>RecruiterCredential\<close>, with no store operation failing. The handler writes the
  credential status \<open>revoked\<close>, reaches the ledger call, which throws because the
  function it names does not exist, and answers 500. The stored recruiter record is
  the one from before the call, with badge status \<open>Active\<close> and the verified flag set,
  and the role synchronisation of the organisation's next request keeps the cached
  recruiter role state \<open>active\<close>.
\<close>

theorem revoke_trust_credential_leaves_badge_active:
  "snd (snd (revokeVcRoute ex_env_source ex_revoke_org ex_db)) = RevokeFailed
   \<and> fst (snd (revokeVcRoute ex_env_source ex_revoke_org ex_db))
        = [CredentialStatusWrite ''vc:org'', LedgerRevokeCall ''did:ex:org'']
   \<and> credentialStatus ''vc:org'' (credentials (fst (revokeVcRoute ex_env_source ex_revoke_org ex_db)))
        = Some CredRevoked
   \<and> findRecruiterByDid ''did:ex:org'' (recruiters (fst (revokeVcRoute ex_env_source ex_revoke_org ex_db)))
        = Some ex_org
   \<and> rec_onboarded ex_org \<and> rec_kycStatus ex_org = KycApproved
   \<and> rec_badge ex_org = Some ex_badge
   \<and> badge_status ex_badge = Some ''Active'' \<and> badge_verified ex_badge
   \<and> computeRecruiterRoleState (Some ex_org) = RoleActive
   \<and> syncRecruiterRoleFromRecruiterDoc (Some ex_org_user) (Some ex_org_session)
          (recruiters (fst (revokeVcRoute ex_env_source ex_revoke_org ex_db)))
        = (Some ex_org_user, Some ex_org)
   \<and> roles_recruiter ex_org_user = RoleActive"
proof -
  have h1: "requireRoleActive Issuer (rq_user ex_revoke_org)" by code_simp
  have h2: "rq_credentialId ex_revoke_org = Some ''vc:org''" by (simp add: ex_revoke_org_def)
  have h3: "mustGetDid (rq_session ex_revoke_org) = Inr ''did:ex:issuer''" by code_simp
  have h4: "findCredential ''vc:org'' ''did:ex:issuer'' (credentials ex_db) = Some ex_trust_cred"
    by (simp add: findCredential_def ex_trust_cred_def ex_db_def)
  have h5: "''RecruiterCredential'' \<in> set (cred_type ex_trust_cred)" by (simp add: ex_trust_cred_def)
  have h6: "findRecruiterByDid (cred_subjectDid ex_trust_cred) (recruiters ex_db) = Some ex_org"
    by (simp add: findRecruiterByDid_def ex_org_def ex_trust_cred_def ex_db_def)
  have run: "snd (snd (revokeVcRoute ex_env_source ex_revoke_org ex_db)) = RevokeFailed
             \<and> recruiters (fst (revokeVcRoute ex_env_source ex_revoke_org ex_db)) = recruiters ex_db"
    unfolding ex_env_source_def
    by (rule revokeVcRoute_recruiter_credential_throws[OF h1 h2 _ h3 h4 h5 h6]) simp
  have log: "fst (snd (revokeVcRoute ex_env_source ex_revoke_org ex_db))
               = [CredentialStatusWrite ''vc:org'', LedgerRevokeCall ''did:ex:org'']"
    by code_simp
  have st: "credentialStatus ''vc:org''
              (credentials (fst (revokeVcRoute ex_env_source ex_revoke_org ex_db))) = Some CredRevoked"
    by code_simp
  have org: "findRecruiterByDid ''did:ex:org'' (recruiters ex_db) = Some ex_org"
    by (simp add: findRecruiterByDid_def ex_org_def ex_db_def)
  have rec: "rec_onboarded ex_org \<and> rec_kycStatus ex_org = KycApproved
             \<and> rec_badge ex_org = Some ex_badge
             \<and> badge_status ex_badge = Some ''Active'' \<and> badge_verified ex_badge"
    by (simp add: ex_org_def ex_badge_def absentBadge_def)
  have role: "computeRecruiterRoleState (Some ex_org) = RoleActive" by code_simp
  have sync: "syncRecruiterRoleFromRecruiterDoc (Some ex_org_user) (Some ex_org_session)
                (recruiters ex_db) = (Some ex_org_user, Some ex_org)"
    by code_simp
  have u: "roles_recruiter ex_org_user = RoleActive" by (simp add: ex_org_user_def)
  from run log st org rec role sync u show ?thesis by simp
qed

subsection \<open>Disclosures\<close>

lemma set_uniq: "set (uniq xs) = set xs"
  by (simp add: uniq_def)

lemma filterActive_char:
  "filterActiveSharedProofs ps creds =
     filter (\<lambda>p. sp_vcId p \<noteq> [] \<and> (\<exists>c\<in>set creds. cred_credentialId c = sp_vcId p \<and> cred_status c = CredActive)) ps"
proof (cases "filter (\<lambda>i. i \<noteq> []) (map sp_vcId ps) = []")
  case True
  then have "\<forall>p\<in>set ps. sp_vcId p = []"
    by (auto simp: filter_empty_conv)
  then have "filter (\<lambda>p. sp_vcId p \<noteq> [] \<and> (\<exists>c\<in>set creds. cred_credentialId c = sp_vcId p \<and> cred_status c = CredActive)) ps = []"
    by (auto simp: filter_empty_conv)
  with True show ?thesis
    by (simp add: filterActiveSharedProofs_def uniq_def Let_def)
next
  case False
  then have ne: "ps \<noteq> []" "uniq (filter (\<lambda>i. i \<noteq> []) (map sp_vcId ps)) \<noteq> []"
    by (auto simp: uniq_def)
  have "(sp_vcId p \<in> set (map cred_credentialId (filter (\<lambda>c. cred_credentialId c \<in> set (uniq (filter (\<lambda>i. i \<noteq> []) (map sp_vcId ps)))
                                          \<and> cred_status c = CredActive) creds)))
        = (sp_vcId p \<noteq> [] \<and> (\<exists>c\<in>set creds. cred_credentialId c = sp_vcId p \<and> cred_status c = CredActive))"
    if "p \<in> set ps" for p
    using that by (force simp: set_uniq)
  then show ?thesis
    using ne
    by (simp add: filterActiveSharedProofs_def Let_def cong: filter_cong)
qed

lemma find_distinct_key:
  assumes "distinct (map k xs)" "x \<in> set xs"
  shows "find (\<lambda>y. k y = k x) xs = Some x"
  using assms by (induction xs) (auto simp: rev_image_eqI)

lemma credentialStatus_active_iff:
  assumes "distinct (map cred_credentialId creds)"
  shows "credentialStatus cid creds = Some st \<longleftrightarrow> (\<exists>c\<in>set creds. cred_credentialId c = cid \<and> cred_status c = st)"
proof
  assume "credentialStatus cid creds = Some st"
  then obtain c where c: "find (\<lambda>c. cred_credentialId c = cid) creds = Some c" "cred_status c = st"
    by (auto simp: credentialStatus_def)
  then show "\<exists>c\<in>set creds. cred_credentialId c = cid \<and> cred_status c = st"
    by (auto simp: find_Some_iff)
next
  assume "\<exists>c\<in>set creds. cred_credentialId c = cid \<and> cred_status c = st"
  then obtain c where c: "c \<in> set creds" "cred_credentialId c = cid" "cred_status c = st" by blast
  from find_distinct_key[OF assms c(1)] c show "credentialStatus cid creds = Some st"
    by (simp add: credentialStatus_def)
qed

lemma find_None_conv: "find P xs = None \<longleftrightarrow> (\<forall>x\<in>set xs. \<not> P x)"
  by (induction xs) auto

lemma find_in_set: "find P xs = Some x \<Longrightarrow> x \<in> set xs"
  by (induction xs) (auto split: if_splits)

lemma byIdGet_None: "byIdGet found cid = None \<longleftrightarrow> (\<forall>c\<in>set found. cred_credentialId c \<noteq> cid)"
  by (simp add: byIdGet_def find_None_conv)

lemma byIdGet_Some: "byIdGet found cid = Some c \<Longrightarrow> c \<in> set found \<and> cred_credentialId c = cid"
  unfolding byIdGet_def using find_in_set[of _ "rev found" c] find_holds[of _ "rev found" c]
  by auto

lemma validSelected_char:
  "validSelectedOf requested (findOwnedActive requested holder creds)
     = filter (ownedActive holder creds) requested"
  unfolding validSelectedOf_def
  by (rule filter_cong) (auto simp: byIdGet_None findOwnedActive_def ownedActive_def)

lemma deepClone_ok:
  assumes "\<forall>t. raw = Some (JStr t) \<longrightarrow> parse t \<noteq> None"
  shows "\<exists>doc. deepCloneVcRawUntouched parse raw = Inr doc"
  using assms by (auto simp: deepCloneVcRawUntouched_def split: option.splits json.splits)

lemma buildBulkOps_Inr:
  "buildBulkOps parse found mk ids = Inr ops \<Longrightarrow>
   ops = map (\<lambda>cid. mk cid (clonedDoc parse found cid)) ids"
  by (induction ids arbitrary: ops) (auto simp: clonedDoc_def split: sum.splits)

lemma buildBulkOps_ok:
  assumes "parsesStored parse found"
  shows "\<exists>ops. buildBulkOps parse found mk ids = Inr ops"
proof (induction ids)
  case Nil
  then show ?case by simp
next
  case (Cons cid ids)
  have "\<forall>t. (case byIdGet found cid of None \<Rightarrow> None | Some c \<Rightarrow> cred_vcRaw c) = Some (JStr t)
           \<longrightarrow> parse t \<noteq> None"
    using assms by (auto simp: parsesStored_def split: option.splits dest!: byIdGet_Some)
  from deepClone_ok[OF this] Cons show ?case by auto
qed

lemma in_update_first:
  "x \<in> set (update_first P f xs) \<Longrightarrow> x \<in> set xs \<or> (\<exists>y\<in>set xs. P y \<and> x = f y)"
  by (induction xs) (auto split: if_splits)

lemma in_upsertProof: "q \<in> set (upsertProof p ps) \<Longrightarrow> q \<in> set ps \<or> q = p"
  by (auto simp: upsertProof_def dest: in_update_first split: if_splits)

lemma in_bulkWrite: "q \<in> set (bulkWrite ops ps) \<Longrightarrow> q \<in> set ps \<or> q \<in> set ops"
  unfolding bulkWrite_def
  by (induction ops arbitrary: ps) (auto dest: in_upsertProof)

lemma find_append_last:
  "find P (xs @ [x]) = (case find P xs of None \<Rightarrow> (if P x then Some x else None) | Some y \<Rightarrow> Some y)"
  by (induction xs) auto

lemma find_upsert_same: "find (samePair p) (upsertProof p ps) = Some p"
proof (cases "find (samePair p) ps")
  case None
  then show ?thesis by (simp add: upsertProof_def find_append_last samePair_def)
next
  case (Some y)
  then show ?thesis
    by (simp add: upsertProof_def find_update_first samePair_def)
qed

lemma find_update_first_other:
  "(\<And>x. Q x \<Longrightarrow> \<not> P x \<and> \<not> P (f x)) \<Longrightarrow> find P (update_first Q f xs) = find P xs"
  by (induction xs) auto

lemma find_upsert_other:
  assumes "\<not> samePair p q"
  shows "find (samePair p) (upsertProof q ps) = find (samePair p) ps"
proof (cases "find (samePair q) ps")
  case None
  with assms show ?thesis
    by (simp add: upsertProof_def find_append_last split: option.splits)
next
  case (Some y)
  have "find (samePair p) (update_first (samePair q) (\<lambda>_. q) ps) = find (samePair p) ps"
    by (rule find_update_first_other) (use assms in \<open>auto simp: samePair_def\<close>)
  with Some show ?thesis by (simp add: upsertProof_def)
qed

lemma find_bulkWrite:
  assumes "p \<in> set ops" and "\<forall>a\<in>set ops. \<forall>b\<in>set ops. samePair a b \<longrightarrow> a = b"
  shows "find (samePair p) (bulkWrite ops ps) = Some p"
  using assms
proof (induction ops rule: rev_induct)
  case Nil
  then show ?case by simp
next
  case (snoc x xs)
  show ?case
  proof (cases "samePair p x")
    case True
    with snoc.prems have "p = x" by auto
    then show ?thesis by (simp add: bulkWrite_def find_upsert_same)
  next
    case False
    with snoc.prems have "p \<in> set xs" by (auto simp: samePair_def)
    with snoc have "find (samePair p) (bulkWrite xs ps) = Some p" by auto
    with False show ?thesis by (simp add: bulkWrite_def find_upsert_other)
  qed
qed


lemma samePair_mk:
  "samePair (mkSharedProof a j h r cid doc) = (\<lambda>p. sp_applicationId p = a \<and> sp_vcId p = cid)"
  by (auto simp: samePair_def mkSharedProof_def)

lemma parsesStored_found:
  "parsesStored parse creds \<Longrightarrow> parsesStored parse (findOwnedActive ids holder creds)"
  by (auto simp: parsesStored_def findOwnedActive_def)

lemma clonedDoc_owned:
  assumes "parsesStored parse creds" and "cid \<in> set ids" and "ownedActive holder creds cid"
  shows "\<exists>c\<in>set creds. cred_credentialId c = cid \<and> cred_subjectDid c = holder
            \<and> cred_status c = CredActive
            \<and> deepCloneVcRawUntouched parse (cred_vcRaw c)
                 = Inr (clonedDoc parse (findOwnedActive ids holder creds) cid)"
proof -
  let ?found = "findOwnedActive ids holder creds"
  from assms(2,3) have "byIdGet ?found cid \<noteq> None"
    by (auto simp: byIdGet_None findOwnedActive_def ownedActive_def)
  then obtain c where c: "byIdGet ?found cid = Some c" by auto
  from byIdGet_Some[OF c] have in_found: "c \<in> set ?found" and cid: "cred_credentialId c = cid"
    by auto
  then have props: "c \<in> set creds" "cred_subjectDid c = holder" "cred_status c = CredActive"
    by (auto simp: findOwnedActive_def)
  have "\<forall>t. cred_vcRaw c = Some (JStr t) \<longrightarrow> parse t \<noteq> None"
    using assms(1) props(1) by (auto simp: parsesStored_def)
  from deepClone_ok[OF this] obtain doc where doc: "deepCloneVcRawUntouched parse (cred_vcRaw c) = Inr doc"
    by auto
  then have "clonedDoc parse ?found cid = doc" by (simp add: clonedDoc_def c)
  with doc props cid show ?thesis by auto
qed

lemma patchSharedVcs_effect:
  assumes sess: "appMustGetDid (pq_session rq) = Inr holder"
      and app: "findApplicationById (pq_id rq) (applications d) = Some app"
      and own: "app_seekerDid app = holder"
      and sub: "app_status app = Submitted"
      and req: "pq_sharedVcIds rq = Some requested"
      and parse: "parsesStored (aenv_jsonParse env) (credentials d)"
  shows "\<exists>d'. patchSharedVcs env rq d
                 = (d', PatchOk (filter (ownedActive holder (credentials d)) requested))
          \<and> (\<forall>p\<in>set (sharedProofs d'). sp_applicationId p = pq_id rq \<longrightarrow>
                sp_vcId p \<in> set requested \<and> ownedActive holder (credentials d) (sp_vcId p))
          \<and> (\<forall>cid\<in>set requested. ownedActive holder (credentials d) cid \<longrightarrow>
                (\<exists>c\<in>set (credentials d). \<exists>doc.
                    cred_credentialId c = cid \<and> cred_subjectDid c = holder
                    \<and> cred_status c = CredActive
                    \<and> deepCloneVcRawUntouched (aenv_jsonParse env) (cred_vcRaw c) = Inr doc
                    \<and> find (\<lambda>p. sp_applicationId p = pq_id rq \<and> sp_vcId p = cid) (sharedProofs d')
                        = Some (mkSharedProof (pq_id rq) (app_jobId app) holder
                                  (app_recruiterDid app) cid doc)))
          \<and> findApplicationById (pq_id rq) (applications d')
               = Some (app\<lparr> app_sharedVcIds := filter (ownedActive holder (credentials d)) requested \<rparr>)"
proof -
  let ?creds = "credentials d"
  let ?found = "findOwnedActive requested holder ?creds"
  let ?valid = "filter (ownedActive holder ?creds) requested"
  let ?mk = "mkSharedProof (pq_id rq) (app_jobId app) holder (app_recruiterDid app)"
  let ?ps1 = "delete_many (\<lambda>p. sp_applicationId p = pq_id rq \<and> sp_vcId p \<notin> set ?valid) (sharedProofs d)"
  let ?ops = "map (\<lambda>cid. ?mk cid (clonedDoc (aenv_jsonParse env) ?found cid)) ?valid"
  let ?d' = "d\<lparr> sharedProofs := bulkWrite ?ops ?ps1,
                 applications := update_first (\<lambda>a. app_id a = pq_id rq)
                                   (\<lambda>a. a\<lparr> app_sharedVcIds := ?valid \<rparr>) (applications d) \<rparr>"
  have id: "app_id app = pq_id rq"
    using find_holds[OF app[unfolded findApplicationById_def]] .
  have valid: "validSelectedOf requested ?found = ?valid"
    by (rule validSelected_char)
  obtain ops where ops: "buildBulkOps (aenv_jsonParse env) ?found ?mk ?valid = Inr ops"
    using buildBulkOps_ok[OF parsesStored_found[OF parse]] by blast
  from buildBulkOps_Inr[OF ops] have ops_eq: "ops = ?ops" .
  have run: "patchSharedVcs env rq d = (?d', PatchOk ?valid)"
  proof (cases "?valid = []")
    case True
    then show ?thesis
      using sess app own sub req id
      by (simp add: patchSharedVcs_def Let_def valid bulkWrite_def)
  next
    case False
    then show ?thesis
      using sess app own sub req id ops ops_eq
      by (simp add: patchSharedVcs_def Let_def valid)
  qed
  have b2: "sp_vcId p \<in> set requested \<and> ownedActive holder ?creds (sp_vcId p)"
    if "p \<in> set (sharedProofs ?d')" "sp_applicationId p = pq_id rq" for p
  proof -
    from that(1) have "p \<in> set ?ps1 \<or> p \<in> set ?ops"
      using in_bulkWrite[of p ?ops ?ps1] by simp
    then have "sp_vcId p \<in> set ?valid"
      using that(2) by (auto simp: delete_many_def mkSharedProof_def)
    then show ?thesis by simp
  qed
  have b3: "\<exists>c\<in>set ?creds. \<exists>doc.
                    cred_credentialId c = cid \<and> cred_subjectDid c = holder
                    \<and> cred_status c = CredActive
                    \<and> deepCloneVcRawUntouched (aenv_jsonParse env) (cred_vcRaw c) = Inr doc
                    \<and> find (\<lambda>p. sp_applicationId p = pq_id rq \<and> sp_vcId p = cid) (sharedProofs ?d')
                        = Some (?mk cid doc)"
    if "cid \<in> set requested" "ownedActive holder ?creds cid" for cid
  proof -
    let ?doc = "clonedDoc (aenv_jsonParse env) ?found cid"
    from that have "?mk cid ?doc \<in> set ?ops" by auto
    moreover have "\<forall>a\<in>set ?ops. \<forall>b\<in>set ?ops. samePair a b \<longrightarrow> a = b"
      by (auto simp: samePair_def mkSharedProof_def)
    ultimately have "find (samePair (?mk cid ?doc)) (bulkWrite ?ops ?ps1) = Some (?mk cid ?doc)"
      by (rule find_bulkWrite)
    then have f: "find (\<lambda>p. sp_applicationId p = pq_id rq \<and> sp_vcId p = cid) (sharedProofs ?d')
                   = Some (?mk cid ?doc)"
      by (simp add: samePair_mk)
    from clonedDoc_owned[OF parse that] f show ?thesis by blast
  qed
  have b4: "findApplicationById (pq_id rq) (applications ?d') = Some (app\<lparr> app_sharedVcIds := ?valid \<rparr>)"
    using app by (simp add: findApplicationById_def find_update_first_same)
  from run b2 b3 b4 show ?thesis by blast
qed


lemma sharedProofs_attach [simp]:
  "sharedProofs (attachSeekerSnapshot a h d) = sharedProofs d"
  by (simp add: attachSeekerSnapshot_def split: option.splits)

lemma createApplication_share_effect:
  assumes sess: "cq_session rq = Some s" "s_did s = Some sd" "trim sd = holder" "holder \<noteq> []"
      and job: "cq_jobId rq = Some j" "j \<noteq> []"
      and rec: "cq_recruiterDid rq = Some r" "r \<noteq> []"
      and new: "findApplicationFor j holder (applications d) = None"
      and fresh: "\<forall>p\<in>set (sharedProofs d). sp_applicationId p \<noteq> aenv_newId env"
      and req: "cq_sharedVcIds rq = Some requested"
      and parse: "parsesStored (aenv_jsonParse env) (credentials d)"
  shows "\<exists>d' appDoc. createApplication env rq d = (d', Created appDoc (length requested))
          \<and> app_id appDoc = aenv_newId env
          \<and> (\<forall>p\<in>set (sharedProofs d'). sp_applicationId p = aenv_newId env \<longrightarrow>
                sp_vcId p \<in> set requested \<and> ownedActive holder (credentials d) (sp_vcId p))
          \<and> (\<forall>cid\<in>set requested. ownedActive holder (credentials d) cid \<longrightarrow>
                (\<exists>c\<in>set (credentials d). \<exists>doc.
                    cred_credentialId c = cid \<and> cred_subjectDid c = holder
                    \<and> cred_status c = CredActive
                    \<and> deepCloneVcRawUntouched (aenv_jsonParse env) (cred_vcRaw c) = Inr doc
                    \<and> find (\<lambda>p. sp_applicationId p = aenv_newId env \<and> sp_vcId p = cid)
                          (sharedProofs d')
                        = Some (mkSharedProof (aenv_newId env) j holder r cid doc)))"
proof -
  let ?creds = "credentials d"
  let ?found = "findOwnedActive requested holder ?creds"
  let ?valid = "filter (ownedActive holder ?creds) requested"
  let ?mk = "mkSharedProof (aenv_newId env) j holder r"
  let ?ops = "map (\<lambda>cid. ?mk cid (clonedDoc (aenv_jsonParse env) ?found cid)) ?valid"
  let ?appDoc = "\<lparr> app_id = aenv_newId env, app_jobId = j, app_seekerDid = holder,
                   app_recruiterDid = r, app_sharedVcIds = requested, app_status = Submitted,
                   app_seekerProfile = Some defaultSnapshot \<rparr>"
  have valid: "validSelectedOf requested ?found = ?valid"
    by (rule validSelected_char)
  obtain ops where ops: "buildBulkOps (aenv_jsonParse env) ?found ?mk ?valid = Inr ops"
    using buildBulkOps_ok[OF parsesStored_found[OF parse]] by blast
  from buildBulkOps_Inr[OF ops] have ops_eq: "ops = ?ops" .
  have sd: "sd \<noteq> []"
    using sess(3,4) by (auto simp: trim_def)
  obtain d' where run: "createApplication env rq d = (d', Created ?appDoc (length requested))"
     and sp: "sharedProofs d' = bulkWrite ?ops (sharedProofs d)"
  proof (cases "?valid = []")
    case True
    then have "createApplication env rq d
                 = (attachSeekerSnapshot (aenv_newId env) holder
                      (d\<lparr> applications := applications d @ [?appDoc] \<rparr>),
                    Created ?appDoc (length requested))"
      using sess sd job rec new req
      by (simp add: createApplication_def Let_def valid truthy_def orEmpty_def)
    with True that show ?thesis by (simp add: bulkWrite_def)
  next
    case False
    then have ne: "requested \<noteq> []" by auto
    have "createApplication env rq d
                 = (attachSeekerSnapshot (aenv_newId env) holder
                      (d\<lparr> applications := applications d @ [?appDoc],
                           sharedProofs := bulkWrite ?ops (sharedProofs d),
                           applications :=
                             update_first (\<lambda>a. app_id a = aenv_newId env)
                               (\<lambda>a. a\<lparr> app_sharedVcIds := ?valid \<rparr>)
                               (applications d @ [?appDoc]) \<rparr>),
                    Created ?appDoc (length requested))"
      using sess sd job rec new req False ne ops ops_eq
      by (simp add: createApplication_def Let_def valid truthy_def orEmpty_def)
    with that show ?thesis by simp
  qed
  have b2: "sp_vcId p \<in> set requested \<and> ownedActive holder ?creds (sp_vcId p)"
    if "p \<in> set (sharedProofs d')" "sp_applicationId p = aenv_newId env" for p
  proof -
    from that(1) have "p \<in> set (sharedProofs d) \<or> p \<in> set ?ops"
      using in_bulkWrite[of p ?ops "sharedProofs d"] by (simp add: sp)
    then have "sp_vcId p \<in> set ?valid"
      using that(2) fresh by (auto simp: mkSharedProof_def)
    then show ?thesis by simp
  qed
  have b3: "\<exists>c\<in>set ?creds. \<exists>doc.
                    cred_credentialId c = cid \<and> cred_subjectDid c = holder
                    \<and> cred_status c = CredActive
                    \<and> deepCloneVcRawUntouched (aenv_jsonParse env) (cred_vcRaw c) = Inr doc
                    \<and> find (\<lambda>p. sp_applicationId p = aenv_newId env \<and> sp_vcId p = cid) (sharedProofs d')
                        = Some (?mk cid doc)"
    if "cid \<in> set requested" "ownedActive holder ?creds cid" for cid
  proof -
    let ?doc = "clonedDoc (aenv_jsonParse env) ?found cid"
    from that have "?mk cid ?doc \<in> set ?ops" by auto
    moreover have "\<forall>a\<in>set ?ops. \<forall>b\<in>set ?ops. samePair a b \<longrightarrow> a = b"
      by (auto simp: samePair_def mkSharedProof_def)
    ultimately have "find (samePair (?mk cid ?doc)) (bulkWrite ?ops (sharedProofs d)) = Some (?mk cid ?doc)"
      by (rule find_bulkWrite)
    then have f: "find (\<lambda>p. sp_applicationId p = aenv_newId env \<and> sp_vcId p = cid) (sharedProofs d')
                   = Some (?mk cid ?doc)"
      by (simp add: samePair_mk sp)
    from clonedDoc_owned[OF parse that] f show ?thesis by blast
  qed
  from run b2 b3 show ?thesis by fastforce
qed



text \<open>
  Claim C3. For every application, the list of active disclosures is exactly the list of
  the application's stored SharedProof records whose credential has status \<open>active\<close> in
  the Credential Store at the time of the call. So a record whose credential has been
  revoked is not returned although the record still exists; the \<^verbatim>\<open>proofs\<close> of the response
  of GET \<^verbatim>\<open>/applications/:id\<close> are this list; and a credential shared (PATCH
  \<^verbatim>\<open>shared-vcs\<close>) while it is active is in the list afterwards. The store satisfies its
  schema: credential ids are unique and not empty, and \<^verbatim>\<open>vcId\<close> is not empty.
\<close>

theorem listActive_exactly_active:
  assumes "distinct (map cred_credentialId (credentials d))"
      and "\<forall>c\<in>set (credentials d). cred_credentialId c \<noteq> []"
      and "\<forall>p\<in>set (sharedProofs d). sp_vcId p \<noteq> []"
  shows "listActiveDisclosures i d =
           filter (\<lambda>p. sp_applicationId p = i
                        \<and> credentialStatus (sp_vcId p) (credentials d) = Some CredActive)
             (sharedProofs d)
         \<and> (\<forall>p\<in>set (sharedProofs d).
               credentialStatus (sp_vcId p) (credentials d) = Some CredRevoked
               \<longrightarrow> p \<notin> set (listActiveDisclosures i d))
         \<and> (\<forall>valid sess app shownProofs. getApplication valid sess i d = GetAppOk app shownProofs \<longrightarrow>
               (case shownProofs of None \<Rightarrow> [] | Some xs \<Rightarrow> xs)
                 = map (\<lambda>p. (sp_vcId p, sp_revealedDocument p)) (listActiveDisclosures i d))
         \<and> (\<forall>env rq holder app requested cid.
               appMustGetDid (pq_session rq) = Inr holder
               \<and> findApplicationById (pq_id rq) (applications d) = Some app
               \<and> app_seekerDid app = holder \<and> app_status app = Submitted
               \<and> pq_sharedVcIds rq = Some requested
               \<and> parsesStored (aenv_jsonParse env) (credentials d)
               \<and> cid \<in> set requested \<and> ownedActive holder (credentials d) cid
               \<longrightarrow> cid \<in> sp_vcId ` set (listActiveDisclosures (pq_id rq) (fst (patchSharedVcs env rq d))))"
proof -
  have exact: "listActiveDisclosures i d' =
           filter (\<lambda>p. sp_applicationId p = i
                        \<and> sp_vcId p \<noteq> []
                        \<and> (\<exists>c\<in>set (credentials d'). cred_credentialId c = sp_vcId p \<and> cred_status c = CredActive))
             (sharedProofs d')" for i d'
    by (auto simp: listActiveDisclosures_def filterActive_char intro!: filter_cong)
  have a: "listActiveDisclosures i d =
           filter (\<lambda>p. sp_applicationId p = i
                        \<and> credentialStatus (sp_vcId p) (credentials d) = Some CredActive)
             (sharedProofs d)"
    unfolding exact using assms(3)
    by (auto simp: credentialStatus_active_iff[OF assms(1)] intro!: filter_cong)
  have b: "\<forall>p\<in>set (sharedProofs d).
               credentialStatus (sp_vcId p) (credentials d) = Some CredRevoked
               \<longrightarrow> p \<notin> set (listActiveDisclosures i d)"
    unfolding a by auto
  have c: "(case shownProofs of None \<Rightarrow> [] | Some xs \<Rightarrow> xs)
                 = map (\<lambda>p. (sp_vcId p, sp_revealedDocument p)) (listActiveDisclosures i d)"
    if "getApplication valid sess i d = GetAppOk app shownProofs" for valid sess app shownProofs
    using that
    by (auto simp: getApplication_def Let_def split: sum.splits option.splits if_splits)
  have e: "cid \<in> sp_vcId ` set (listActiveDisclosures (pq_id rq) (fst (patchSharedVcs env rq d)))"
    if h: "appMustGetDid (pq_session rq) = Inr holder"
          "findApplicationById (pq_id rq) (applications d) = Some app"
          "app_seekerDid app = holder" "app_status app = Submitted"
          "pq_sharedVcIds rq = Some requested"
          "parsesStored (aenv_jsonParse env) (credentials d)"
      and cid: "cid \<in> set requested" "ownedActive holder (credentials d) cid"
    for env rq holder app requested cid
  proof -
    from patchSharedVcs_effect[OF h] cid
    obtain d' p where run: "patchSharedVcs env rq d = (d', PatchOk (filter (ownedActive holder (credentials d)) requested))"
      and f: "find (\<lambda>p. sp_applicationId p = pq_id rq \<and> sp_vcId p = cid) (sharedProofs d') = Some p"
      by blast
    have creds: "credentials d' = credentials d"
      using run h
      by (auto simp: patchSharedVcs_def Let_def split: sum.splits option.splits if_splits)
    from find_in_set[OF f] find_holds[OF f]
    have p: "p \<in> set (sharedProofs d')" "sp_applicationId p = pq_id rq" "sp_vcId p = cid" by auto
    from cid(2) assms(2) have ne: "cid \<noteq> []" and act: "\<exists>c\<in>set (credentials d). cred_credentialId c = cid \<and> cred_status c = CredActive"
      by (auto simp: ownedActive_def)
    have "p \<in> set (listActiveDisclosures (pq_id rq) d')"
      unfolding exact using p ne act creds by auto
    with p(3) run show ?thesis by force
  qed
  have c': "\<forall>valid sess app shownProofs. getApplication valid sess i d = GetAppOk app shownProofs \<longrightarrow>
               (case shownProofs of None \<Rightarrow> [] | Some xs \<Rightarrow> xs)
                 = map (\<lambda>p. (sp_vcId p, sp_revealedDocument p)) (listActiveDisclosures i d)"
    using c by blast
  have e': "\<forall>env rq holder app requested cid.
               appMustGetDid (pq_session rq) = Inr holder
               \<and> findApplicationById (pq_id rq) (applications d) = Some app
               \<and> app_seekerDid app = holder \<and> app_status app = Submitted
               \<and> pq_sharedVcIds rq = Some requested
               \<and> parsesStored (aenv_jsonParse env) (credentials d)
               \<and> cid \<in> set requested \<and> ownedActive holder (credentials d) cid
               \<longrightarrow> cid \<in> sp_vcId ` set (listActiveDisclosures (pq_id rq) (fst (patchSharedVcs env rq d)))"
    using e by (intro allI impI) (elim conjE, assumption)
  show ?thesis
    by (intro conjI) (rule a, rule b, rule c', rule e')
qed


theorem listActive_exactly_active_witness:
  "listActiveDisclosures ''a1'' ex_db_foreign = [ex_proof]
   \<and> ex_proof \<in> set (sharedProofs ex_db_revoked)
   \<and> ex_proof \<notin> set (listActiveDisclosures ''a1'' ex_db_revoked)
   \<and> ''vc:emp'' \<in> sp_vcId ` set (listActiveDisclosures ''a1''
                                     (fst (patchSharedVcs ex_app_env ex_patch_both ex_db_foreign)))"
proof -
  have h1: "distinct (map cred_credentialId (credentials ex_db_foreign))" by (simp add: ex_badge_def ex_org_def ex_trust_cred_def ex_personal_cred_def ex_holder_def ex_app_def ex_proof_def ex_issuer_def ex_db_def ex_foreign_cred_def ex_db_foreign_def absentBadge_def)
  have h2: "\<forall>c\<in>set (credentials ex_db_foreign). cred_credentialId c \<noteq> []" by (simp add: ex_badge_def ex_org_def ex_trust_cred_def ex_personal_cred_def ex_holder_def ex_app_def ex_proof_def ex_issuer_def ex_db_def ex_foreign_cred_def ex_db_foreign_def absentBadge_def)
  have h3: "\<forall>p\<in>set (sharedProofs ex_db_foreign). sp_vcId p \<noteq> []" by (simp add: ex_badge_def ex_org_def ex_trust_cred_def ex_personal_cred_def ex_holder_def ex_app_def ex_proof_def ex_issuer_def ex_db_def ex_foreign_cred_def ex_db_foreign_def absentBadge_def)
  have r1: "distinct (map cred_credentialId (credentials ex_db_revoked))" by (simp add: ex_badge_def ex_org_def ex_trust_cred_def ex_personal_cred_def ex_holder_def ex_app_def ex_proof_def ex_issuer_def ex_db_def ex_db_revoked_def absentBadge_def)
  have r2: "\<forall>c\<in>set (credentials ex_db_revoked). cred_credentialId c \<noteq> []" by (simp add: ex_badge_def ex_org_def ex_trust_cred_def ex_personal_cred_def ex_holder_def ex_app_def ex_proof_def ex_issuer_def ex_db_def ex_db_revoked_def absentBadge_def)
  have r3: "\<forall>p\<in>set (sharedProofs ex_db_revoked). sp_vcId p \<noteq> []" by (simp add: ex_badge_def ex_org_def ex_trust_cred_def ex_personal_cred_def ex_holder_def ex_app_def ex_proof_def ex_issuer_def ex_db_def ex_db_revoked_def absentBadge_def)
  have e1: "filter (\<lambda>p. sp_applicationId p = ''a1''
                        \<and> credentialStatus (sp_vcId p) (credentials ex_db_foreign) = Some CredActive)
             (sharedProofs ex_db_foreign) = [ex_proof]"
    by (simp add: credentialStatus_def ex_badge_def ex_org_def ex_trust_cred_def ex_personal_cred_def ex_holder_def ex_app_def ex_proof_def ex_issuer_def ex_db_def ex_foreign_cred_def ex_db_foreign_def absentBadge_def)
  have e2: "ex_proof \<in> set (sharedProofs ex_db_revoked)" by (simp add: ex_badge_def ex_org_def ex_trust_cred_def ex_personal_cred_def ex_holder_def ex_app_def ex_proof_def ex_issuer_def ex_db_def ex_db_revoked_def absentBadge_def)
  have e3: "credentialStatus (sp_vcId ex_proof) (credentials ex_db_revoked) = Some CredRevoked"
    by (simp add: credentialStatus_def ex_badge_def ex_org_def ex_trust_cred_def ex_personal_cred_def ex_holder_def ex_app_def ex_proof_def ex_issuer_def ex_db_def ex_db_revoked_def absentBadge_def)
  have p1: "appMustGetDid (pq_session ex_patch_both) = Inr ''did:ex:holder''" by code_simp
  have p2: "findApplicationById (pq_id ex_patch_both) (applications ex_db_foreign) = Some ex_app"
    by (simp add: findApplicationById_def ex_badge_def ex_org_def ex_trust_cred_def ex_personal_cred_def ex_holder_def ex_app_def ex_proof_def ex_issuer_def ex_db_def ex_foreign_cred_def ex_db_foreign_def ex_holder_session_def ex_patch_both_def absentBadge_def)
  have p3: "app_seekerDid ex_app = ''did:ex:holder''" by (simp add: ex_app_def)
  have p4: "app_status ex_app = Submitted" by (simp add: ex_app_def)
  have p5: "pq_sharedVcIds ex_patch_both = Some [''vc:emp'', ''vc:foreign'']" by (simp add: ex_holder_session_def ex_patch_both_def)
  have p6: "parsesStored (aenv_jsonParse ex_app_env) (credentials ex_db_foreign)"
    by (simp add: parsesStored_def ex_badge_def ex_org_def ex_trust_cred_def ex_personal_cred_def ex_holder_def ex_app_def ex_proof_def ex_issuer_def ex_db_def ex_foreign_cred_def ex_db_foreign_def ex_app_env_def absentBadge_def)
  have p7: "''vc:emp'' \<in> set [''vc:emp'', ''vc:foreign'']" by simp
  have p8: "ownedActive ''did:ex:holder'' (credentials ex_db_foreign) ''vc:emp''"
    by (simp add: ownedActive_def ex_badge_def ex_org_def ex_trust_cred_def ex_personal_cred_def ex_holder_def ex_app_def ex_proof_def ex_issuer_def ex_db_def ex_foreign_cred_def ex_db_foreign_def absentBadge_def)
  have id: "pq_id ex_patch_both = ''a1''" by (simp add: ex_holder_session_def ex_patch_both_def)
  note A = listActive_exactly_active[OF h1 h2 h3, of "''a1''"]
  note B = listActive_exactly_active[OF r1 r2 r3, of "''a1''"]
  from A e1 have 1: "listActiveDisclosures ''a1'' ex_db_foreign = [ex_proof]" by simp
  from B e2 e3 have 2: "ex_proof \<notin> set (listActiveDisclosures ''a1'' ex_db_revoked)" by blast
  from A p1 p2 p3 p4 p5 p6 p7 p8
  have "''vc:emp'' \<in> sp_vcId ` set (listActiveDisclosures (pq_id ex_patch_both)
                                     (fst (patchSharedVcs ex_app_env ex_patch_both ex_db_foreign)))"
    by blast
  with 1 2 e2 id show ?thesis by simp
qed

text \<open>
  Claim C4, as stated, asks that sharing a credential which the holder does not own, or
  which is not active, fails with an error. The routes filter instead: here the holder
  \<^verbatim>\<open>did:ex:holder\<close> asks to share \<^verbatim>\<open>vc:foreign\<close>, whose subject is another DID, and
  the answer is the success response with an empty list of shared ids.
\<close>

theorem share_unowned_is_not_an_error:
  "findCredential ''vc:foreign'' ''did:ex:issuer'' (credentials ex_db_foreign) = Some ex_foreign_cred
   \<and> cred_subjectDid ex_foreign_cred \<noteq> ''did:ex:holder''
   \<and> appMustGetDid (pq_session ex_patch_foreign) = Inr ''did:ex:holder''
   \<and> pq_sharedVcIds ex_patch_foreign = Some [''vc:foreign'']
   \<and> snd (patchSharedVcs ex_app_env ex_patch_foreign ex_db_foreign) = PatchOk []"
  by code_simp


text \<open>
  Claim C4, amended. In both sharing routes (PATCH \<^verbatim>\<open>/applications/:id/shared-vcs\<close> by the
  application's seeker while the application is \<^verbatim>\<open>submitted\<close>, and the VC-sharing section
  of POST \<^verbatim>\<open>/applications\<close> for a new application), a requested credential whose subject
  DID is not the holder's DID or whose status is not \<open>active\<close> is left out and the
  operation still succeeds: afterwards every disclosure record of the context names a
  requested credential that the holder owns and that is active. For each requested
  credential that meets the precondition, sharing is an upsert keyed on (context id,
  credential id): whether or not a record for the pair existed, the operation does not
  fail and the record found for the pair holds the deep clone of the credential's
  current \<^verbatim>\<open>vcRaw\<close>. Every \<^verbatim>\<open>vcRaw\<close> stored as a string is taken to parse as JSON.
\<close>

theorem share_skips_unowned_and_upserts:
  assumes parse: "parsesStored (aenv_jsonParse env) (credentials d)"
  shows "(\<forall>rq holder app requested.
            appMustGetDid (pq_session rq) = Inr holder
            \<and> findApplicationById (pq_id rq) (applications d) = Some app
            \<and> app_seekerDid app = holder \<and> app_status app = Submitted
            \<and> pq_sharedVcIds rq = Some requested
            \<longrightarrow> (\<exists>d'. patchSharedVcs env rq d
                         = (d', PatchOk (filter (ownedActive holder (credentials d)) requested))
                  \<and> (\<forall>p\<in>set (sharedProofs d'). sp_applicationId p = pq_id rq \<longrightarrow>
                        sp_vcId p \<in> set requested
                        \<and> ownedActive holder (credentials d) (sp_vcId p))
                  \<and> (\<forall>cid\<in>set requested. ownedActive holder (credentials d) cid \<longrightarrow>
                        (\<exists>c\<in>set (credentials d). \<exists>doc.
                            cred_credentialId c = cid \<and> cred_subjectDid c = holder
                            \<and> cred_status c = CredActive
                            \<and> deepCloneVcRawUntouched (aenv_jsonParse env) (cred_vcRaw c) = Inr doc
                            \<and> find (\<lambda>p. sp_applicationId p = pq_id rq \<and> sp_vcId p = cid)
                                  (sharedProofs d')
                                = Some (mkSharedProof (pq_id rq) (app_jobId app) holder
                                          (app_recruiterDid app) cid doc)))))
         \<and> (\<forall>rq s sd holder j r requested.
            cq_session rq = Some s \<and> s_did s = Some sd \<and> trim sd = holder \<and> holder \<noteq> []
            \<and> cq_jobId rq = Some j \<and> j \<noteq> [] \<and> cq_recruiterDid rq = Some r \<and> r \<noteq> []
            \<and> findApplicationFor j holder (applications d) = None
            \<and> (\<forall>p\<in>set (sharedProofs d). sp_applicationId p \<noteq> aenv_newId env)
            \<and> cq_sharedVcIds rq = Some requested
            \<longrightarrow> (\<exists>d' appDoc. createApplication env rq d = (d', Created appDoc (length requested))
                  \<and> app_id appDoc = aenv_newId env
                  \<and> (\<forall>p\<in>set (sharedProofs d'). sp_applicationId p = aenv_newId env \<longrightarrow>
                        sp_vcId p \<in> set requested
                        \<and> ownedActive holder (credentials d) (sp_vcId p))
                  \<and> (\<forall>cid\<in>set requested. ownedActive holder (credentials d) cid \<longrightarrow>
                        (\<exists>c\<in>set (credentials d). \<exists>doc.
                            cred_credentialId c = cid \<and> cred_subjectDid c = holder
                            \<and> cred_status c = CredActive
                            \<and> deepCloneVcRawUntouched (aenv_jsonParse env) (cred_vcRaw c) = Inr doc
                            \<and> find (\<lambda>p. sp_applicationId p = aenv_newId env \<and> sp_vcId p = cid)
                                  (sharedProofs d')
                                = Some (mkSharedProof (aenv_newId env) j holder r cid doc)))))"
proof (intro conjI allI impI; elim conjE)
  fix rq :: patch_request and holder and app :: application and requested
  assume h: "appMustGetDid (pq_session rq) = Inr holder"
            "findApplicationById (pq_id rq) (applications d) = Some app"
            "app_seekerDid app = holder" "app_status app = Submitted"
            "pq_sharedVcIds rq = Some requested"
  from patchSharedVcs_effect[OF h parse]
  show "\<exists>d'. patchSharedVcs env rq d
                         = (d', PatchOk (filter (ownedActive holder (credentials d)) requested))
                  \<and> (\<forall>p\<in>set (sharedProofs d'). sp_applicationId p = pq_id rq \<longrightarrow>
                        sp_vcId p \<in> set requested
                        \<and> ownedActive holder (credentials d) (sp_vcId p))
                  \<and> (\<forall>cid\<in>set requested. ownedActive holder (credentials d) cid \<longrightarrow>
                        (\<exists>c\<in>set (credentials d). \<exists>doc.
                            cred_credentialId c = cid \<and> cred_subjectDid c = holder
                            \<and> cred_status c = CredActive
                            \<and> deepCloneVcRawUntouched (aenv_jsonParse env) (cred_vcRaw c) = Inr doc
                            \<and> find (\<lambda>p. sp_applicationId p = pq_id rq \<and> sp_vcId p = cid)
                                  (sharedProofs d')
                                = Some (mkSharedProof (pq_id rq) (app_jobId app) holder
                                          (app_recruiterDid app) cid doc)))"
    by blast
next
  fix rq :: create_request and s :: session and sd holder j r requested
  assume h: "cq_session rq = Some s" "s_did s = Some sd" "trim sd = holder" "holder \<noteq> []"
            "cq_jobId rq = Some j" "j \<noteq> []" "cq_recruiterDid rq = Some r" "r \<noteq> []"
            "findApplicationFor j holder (applications d) = None"
            "\<forall>p\<in>set (sharedProofs d). sp_applicationId p \<noteq> aenv_newId env"
            "cq_sharedVcIds rq = Some requested"
  from createApplication_share_effect[OF h parse]
  show "\<exists>d' appDoc. createApplication env rq d = (d', Created appDoc (length requested))
                  \<and> app_id appDoc = aenv_newId env
                  \<and> (\<forall>p\<in>set (sharedProofs d'). sp_applicationId p = aenv_newId env \<longrightarrow>
                        sp_vcId p \<in> set requested
                        \<and> ownedActive holder (credentials d) (sp_vcId p))
                  \<and> (\<forall>cid\<in>set requested. ownedActive holder (credentials d) cid \<longrightarrow>
                        (\<exists>c\<in>set (credentials d). \<exists>doc.
                            cred_credentialId c = cid \<and> cred_subjectDid c = holder
                            \<and> cred_status c = CredActive
                            \<and> deepCloneVcRawUntouched (aenv_jsonParse env) (cred_vcRaw c) = Inr doc
                            \<and> find (\<lambda>p. sp_applicationId p = aenv_newId env \<and> sp_vcId p = cid)
                                  (sharedProofs d')
                                = Some (mkSharedProof (aenv_newId env) j holder r cid doc)))" .
qed

theorem share_skips_unowned_and_upserts_witness:
  "snd (patchSharedVcs ex_app_env ex_patch_both ex_db_foreign) = PatchOk [''vc:emp'']
   \<and> map sp_vcId (filter (\<lambda>p. sp_applicationId p = ''a1'')
         (sharedProofs (fst (patchSharedVcs ex_app_env ex_patch_both ex_db_foreign)))) = [''vc:emp'']
   \<and> (\<exists>appDoc. snd (createApplication ex_app_env ex_create_new ex_db_foreign) = Created appDoc 2)
   \<and> find (\<lambda>p. sp_applicationId p = ''a2'' \<and> sp_vcId p = ''vc:emp'')
         (sharedProofs (fst (createApplication ex_app_env ex_create_new ex_db_foreign)))
       = Some (mkSharedProof ''a2'' ''j2'' ''did:ex:holder'' ''did:ex:org'' ''vc:emp''
                 (Some (JObj [(''id'', JStr ''vc:emp'')])))"
proof -
  have p0: "parsesStored (aenv_jsonParse ex_app_env) (credentials ex_db_foreign)"
    by (simp add: parsesStored_def ex_badge_def ex_org_def ex_trust_cred_def ex_personal_cred_def ex_holder_def ex_app_def ex_proof_def ex_issuer_def ex_db_def ex_foreign_cred_def ex_db_foreign_def ex_app_env_def absentBadge_def)
  have p1: "appMustGetDid (pq_session ex_patch_both) = Inr ''did:ex:holder''" by code_simp
  have p2: "findApplicationById (pq_id ex_patch_both) (applications ex_db_foreign) = Some ex_app"
    by (simp add: findApplicationById_def ex_badge_def ex_org_def ex_trust_cred_def ex_personal_cred_def ex_holder_def ex_app_def ex_proof_def ex_issuer_def ex_db_def ex_foreign_cred_def ex_db_foreign_def ex_holder_session_def ex_patch_both_def absentBadge_def)
  have p3: "app_seekerDid ex_app = ''did:ex:holder''" by (simp add: ex_app_def)
  have p4: "app_status ex_app = Submitted" by (simp add: ex_app_def)
  have p5: "pq_sharedVcIds ex_patch_both = Some [''vc:emp'', ''vc:foreign'']" by (simp add: ex_holder_session_def ex_patch_both_def)
  have c1: "cq_session ex_create_new = Some ex_holder_session" by (simp add: ex_holder_session_def ex_create_new_def)
  have c2: "s_did ex_holder_session = Some ''did:ex:holder''" by (simp add: ex_holder_session_def)
  have c3: "trim ''did:ex:holder'' = ''did:ex:holder''" by code_simp
  have c4: "''did:ex:holder'' \<noteq> []" by simp
  have c5: "cq_jobId ex_create_new = Some ''j2''" "''j2'' \<noteq> []" by (simp_all add: ex_holder_session_def ex_create_new_def)
  have c6: "cq_recruiterDid ex_create_new = Some ''did:ex:org''" "''did:ex:org'' \<noteq> []"
    by (simp_all add: ex_holder_session_def ex_create_new_def)
  have c7: "findApplicationFor ''j2'' ''did:ex:holder'' (applications ex_db_foreign) = None"
    by (simp add: findApplicationFor_def ex_badge_def ex_org_def ex_trust_cred_def ex_personal_cred_def ex_holder_def ex_app_def ex_proof_def ex_issuer_def ex_db_def ex_foreign_cred_def ex_db_foreign_def absentBadge_def)
  have c8: "\<forall>p\<in>set (sharedProofs ex_db_foreign). sp_applicationId p \<noteq> aenv_newId ex_app_env"
    by (simp add: ex_badge_def ex_org_def ex_trust_cred_def ex_personal_cred_def ex_holder_def ex_app_def ex_proof_def ex_issuer_def ex_db_def ex_foreign_cred_def ex_db_foreign_def ex_app_env_def absentBadge_def)
  have c9: "cq_sharedVcIds ex_create_new = Some [''vc:emp'', ''vc:foreign'']" by (simp add: ex_holder_session_def ex_create_new_def)
  have e1: "snd (patchSharedVcs ex_app_env ex_patch_both ex_db_foreign) = PatchOk [''vc:emp'']"
    by code_simp
  have e2: "map sp_vcId (filter (\<lambda>p. sp_applicationId p = ''a1'')
         (sharedProofs (fst (patchSharedVcs ex_app_env ex_patch_both ex_db_foreign)))) = [''vc:emp'']"
    by code_simp
  have e3: "find (\<lambda>p. sp_applicationId p = ''a2'' \<and> sp_vcId p = ''vc:emp'')
         (sharedProofs (fst (createApplication ex_app_env ex_create_new ex_db_foreign)))
       = Some (mkSharedProof ''a2'' ''j2'' ''did:ex:holder'' ''did:ex:org'' ''vc:emp''
                 (Some (JObj [(''id'', JStr ''vc:emp'')])))"
    by code_simp
  have hp: "appMustGetDid (pq_session ex_patch_both) = Inr ''did:ex:holder''
            \<and> findApplicationById (pq_id ex_patch_both) (applications ex_db_foreign) = Some ex_app
            \<and> app_seekerDid ex_app = ''did:ex:holder'' \<and> app_status ex_app = Submitted
            \<and> pq_sharedVcIds ex_patch_both = Some [''vc:emp'', ''vc:foreign'']"
    using p1 p2 p3 p4 p5 by (intro conjI)
  have hc: "cq_session ex_create_new = Some ex_holder_session
            \<and> s_did ex_holder_session = Some ''did:ex:holder''
            \<and> trim ''did:ex:holder'' = ''did:ex:holder'' \<and> ''did:ex:holder'' \<noteq> []
            \<and> cq_jobId ex_create_new = Some ''j2'' \<and> ''j2'' \<noteq> []
            \<and> cq_recruiterDid ex_create_new = Some ''did:ex:org'' \<and> ''did:ex:org'' \<noteq> []
            \<and> findApplicationFor ''j2'' ''did:ex:holder'' (applications ex_db_foreign) = None
            \<and> (\<forall>p\<in>set (sharedProofs ex_db_foreign). sp_applicationId p \<noteq> aenv_newId ex_app_env)
            \<and> cq_sharedVcIds ex_create_new = Some [''vc:emp'', ''vc:foreign'']"
    using c1 c2 c3 c4 c5 c6 c7 c8 c9 by (intro conjI)
  note T = share_skips_unowned_and_upserts[OF p0]
  from T[THEN conjunct1, rule_format, OF hp]
  have "\<exists>d'. patchSharedVcs ex_app_env ex_patch_both ex_db_foreign
          = (d', PatchOk (filter (ownedActive ''did:ex:holder'' (credentials ex_db_foreign))
                            [''vc:emp'', ''vc:foreign'']))"
    by (elim exE conjE) (rule exI)
  moreover
  from T[THEN conjunct2, rule_format, OF hc]
  have "\<exists>d' appDoc. createApplication ex_app_env ex_create_new ex_db_foreign
          = (d', Created appDoc (length [''vc:emp'', ''vc:foreign'']))"
    by (elim exE conjE) (rule exI, rule exI)
  ultimately show ?thesis using e1 e2 e3 by (auto simp del: filter.simps)
qed


subsection \<open>Creating an application\<close>

text \<open>
  Claim C10. Creating an application is idempotent per job and seeker DID: when the store
  holds an application whose job id is the request's and whose seeker DID is the
  session's (trimmed) DID, a create call that carries a job id and a recruiter DID answers
  with a stored application for that same job and seeker, marked \<^verbatim>\<open>alreadyApplied\<close>, and
  returns the store as it was: no application and no disclosure record is created. When
  the store holds only one application for the pair, that one is returned.
\<close>

theorem createApplication_idempotent:
  assumes "cq_session rq = Some s" and "s_did s = Some sd" and "sd \<noteq> []"
      and "cq_jobId rq = Some j" and "j \<noteq> []"
      and "cq_recruiterDid rq = Some r" and "r \<noteq> []"
      and "a \<in> set (applications d)" and "app_jobId a = j" and "app_seekerDid a = trim sd"
  shows "\<exists>existing.
           createApplication env rq d = (d, CreateAlreadyApplied existing)
           \<and> existing \<in> set (applications d)
           \<and> app_jobId existing = j \<and> app_seekerDid existing = trim sd
           \<and> ((\<forall>b\<in>set (applications d). app_jobId b = j \<and> app_seekerDid b = trim sd \<longrightarrow> b = a)
                \<longrightarrow> existing = a)"
proof -
  let ?P = "\<lambda>x. app_jobId x = j \<and> app_seekerDid x = trim sd"
  from assms(8-10) have "find ?P (applications d) \<noteq> None"
    by (auto simp: find_None_conv)
  then obtain existing where f: "find ?P (applications d) = Some existing" by auto
  from find_in_set[OF f] find_holds[OF f]
  have e: "existing \<in> set (applications d)" "app_jobId existing = j"
          "app_seekerDid existing = trim sd"
    by auto
  have run: "createApplication env rq d = (d, CreateAlreadyApplied existing)"
    using assms(1-7) f
    by (simp add: createApplication_def findApplicationFor_def truthy_def orEmpty_def Let_def)
  from run e show ?thesis by blast
qed

theorem createApplication_idempotent_witness:
  "createApplication ex_app_env ex_create_again ex_db_foreign
     = (ex_db_foreign, CreateAlreadyApplied ex_app)"
proof -
  have h1: "cq_session ex_create_again = Some ex_holder_session"
    by (simp add: ex_create_again_def)
  have h2: "s_did ex_holder_session = Some ''did:ex:holder''" by (simp add: ex_holder_session_def)
  have h3: "''did:ex:holder'' \<noteq> []" by simp
  have h4: "cq_jobId ex_create_again = Some ''j1''" by (simp add: ex_create_again_def)
  have h5: "''j1'' \<noteq> []" by simp
  have h6: "cq_recruiterDid ex_create_again = Some ''did:ex:org''"
    by (simp add: ex_create_again_def)
  have h7: "''did:ex:org'' \<noteq> []" by simp
  have h8: "ex_app \<in> set (applications ex_db_foreign)"
    by (simp add: ex_db_foreign_def ex_db_def)
  have h9: "app_jobId ex_app = ''j1''" by (simp add: ex_app_def)
  have t: "trim ''did:ex:holder'' = ''did:ex:holder''" by code_simp
  have h10: "app_seekerDid ex_app = trim ''did:ex:holder''" by (simp add: ex_app_def t)
  have only: "\<forall>b\<in>set (applications ex_db_foreign).
                app_jobId b = ''j1'' \<and> app_seekerDid b = trim ''did:ex:holder'' \<longrightarrow> b = ex_app"
    by (simp add: ex_db_foreign_def ex_db_def)
  from createApplication_idempotent[OF h1 h2 h3 h4 h5 h6 h7 h8 h9 h10, of ex_app_env] only
  show ?thesis by blast
qed

subsection \<open>Trust badge\<close>





text \<open>
  Claim C8, as stated, promises a local fallback when the ledger read errors. With the
  registry address configured, an organisation that is KYC-approved with a verified local
  badge is reported \<open>None\<close> when the ledger read throws.
\<close>

theorem trust_status_no_local_fallback_on_error:
  "findRecruiterByDid ''did:ex:org'' (recruiters ex_db) = Some ex_org
   \<and> rec_kycStatus ex_org = KycApproved
   \<and> map_option badge_verified (rec_badge ex_org) = Some True
   \<and> ledger_getBadge ex_ledger_down ''did:ex:org'' = None
   \<and> getRecruiterTrustStatusFromChain ex_cfg ex_ledger_down ''did:ex:org'' = TrustNone
   \<and> computeTrustStatusForJob ex_cfg ex_ledger_down (recruiters ex_db) ''did:ex:org'' = TrustNone"
  by code_simp


text \<open>
  Claim C8, amended. A trust-status read never fails its caller. When the contract handle
  cannot be built or the ledger read throws, \<^verbatim>\<open>getRecruiterTrustStatusFromChain\<close> reports
  \<open>None\<close>, and so does \<^verbatim>\<open>computeTrustStatusForJob\<close> when a registry address is configured,
  whatever the local record says. Only when no registry address is configured does
  \<^verbatim>\<open>computeTrustStatusForJob\<close> read the local record: it reports \<open>Active\<close> exactly when
  the organisation's record exists and its badge's verified flag is true (the KYC status
  is not read), and \<open>None\<close> otherwise.
\<close>

theorem trust_status_read_degrades:
  "(\<not> getTrustBadgeRegistryContract cfg \<or> ledger_getBadge l did = None
      \<longrightarrow> getRecruiterTrustStatusFromChain cfg l did = TrustNone)
   \<and> (truthy (cfg_TRUST_BADGE_REGISTRY_ADDR cfg)
        \<and> (\<not> getTrustBadgeRegistryContract cfg \<or> ledger_getBadge l did = None)
      \<longrightarrow> computeTrustStatusForJob cfg l rs did = TrustNone)
   \<and> (\<not> truthy (cfg_TRUST_BADGE_REGISTRY_ADDR cfg)
      \<longrightarrow> computeTrustStatusForJob cfg l rs did
            = (if (\<exists>r b. findRecruiterByDid did rs = Some r \<and> rec_badge r = Some b
                          \<and> badge_verified b)
               then TrustActive else TrustNone))"
  by (auto simp: getRecruiterTrustStatusFromChain_def computeTrustStatusForJob_def
           split: option.splits)

theorem trust_status_read_degrades_witness:
  "getRecruiterTrustStatusFromChain ex_cfg ex_ledger_down ''did:ex:org'' = TrustNone
   \<and> computeTrustStatusForJob ex_cfg ex_ledger_down (recruiters ex_db) ''did:ex:org'' = TrustNone
   \<and> computeTrustStatusForJob ex_cfg_no_registry ex_ledger_down (recruiters ex_db) ''did:ex:org''
       = TrustActive"
proof -
  have a: "ledger_getBadge ex_ledger_down ''did:ex:org'' = None" by (simp add: ex_ledger_down_def)
  have b: "truthy (cfg_TRUST_BADGE_REGISTRY_ADDR ex_cfg)" by (simp add: truthy_def ex_cfg_def)
  have c: "\<not> truthy (cfg_TRUST_BADGE_REGISTRY_ADDR ex_cfg_no_registry)"
    by (simp add: truthy_def ex_cfg_def ex_cfg_no_registry_def)
  have e: "\<exists>r b. findRecruiterByDid ''did:ex:org'' (recruiters ex_db) = Some r
             \<and> rec_badge r = Some b \<and> badge_verified b"
    by (simp add: findRecruiterByDid_def ex_badge_def ex_org_def ex_trust_cred_def ex_personal_cred_def ex_holder_def ex_app_def ex_proof_def ex_issuer_def ex_db_def absentBadge_def)
  from trust_status_read_degrades[of ex_cfg ex_ledger_down "''did:ex:org''" "recruiters ex_db"] a b
  have 1: "getRecruiterTrustStatusFromChain ex_cfg ex_ledger_down ''did:ex:org'' = TrustNone"
      and 2: "computeTrustStatusForJob ex_cfg ex_ledger_down (recruiters ex_db) ''did:ex:org'' = TrustNone"
    by blast+
  from trust_status_read_degrades[of ex_cfg_no_registry ex_ledger_down "''did:ex:org''" "recruiters ex_db"] c e
  have 3: "computeTrustStatusForJob ex_cfg_no_registry ex_ledger_down (recruiters ex_db) ''did:ex:org''
       = TrustActive"
    by presburger
  from 1 2 3 show ?thesis by blast
qed


subsection \<open>Seeker onboarding\<close>

lemma assignDidIfEmpty_id [simp]: "sk_id (fst (assignDidIfEmpty env v doc)) = sk_id doc"
  by (simp add: assignDidIfEmpty_def)

lemma assignDidIfEmpty_did:
  "truthy (sk_did doc) \<Longrightarrow> sk_did (fst (assignDidIfEmpty env v doc)) = sk_did doc"
  by (simp add: assignDidIfEmpty_def)

lemma applyBodyFields_id [simp]: "sk_id (applyBodyFields body doc) = sk_id doc"
  by (simp add: applyBodyFields_def)

lemma applyBodyFields_did [simp]: "sk_did (applyBodyFields body doc) = sk_did doc"
  by (simp add: applyBodyFields_def)

lemma find_append_keep: "find P xs = Some x \<Longrightarrow> find P (xs @ ys) = Some x"
  by (induction xs) (auto split: if_splits)

lemma save_keeps_did:
  assumes ids: "distinct (map sk_id hs)"
      and h: "h \<in> set hs" and dset: "truthy (sk_did h)"
      and doc: "(\<exists>x\<in>set hs. sk_id doc = sk_id x \<and> (truthy (sk_did x) \<longrightarrow> sk_did doc = sk_did x))
                \<or> sk_id doc \<notin> sk_id ` set hs"
      and save: "saveSeeker doc hs = Inr hs'"
  shows "\<exists>h'. find (\<lambda>x. sk_id x = sk_id h) hs' = Some h' \<and> sk_did h' = sk_did h"
proof -
  have fh: "find (\<lambda>x. sk_id x = sk_id h) hs = Some h"
    by (rule find_distinct_key[OF ids h])
  show ?thesis
  proof (cases "find (\<lambda>x. sk_id x = sk_id doc) hs")
    case None
    with save have "hs' = hs @ [doc]"
      by (auto simp: saveSeeker_def Let_def split: if_splits)
    with fh show ?thesis by (simp add: find_append_keep)
  next
    case (Some old)
    with save have hs': "hs' = update_first (\<lambda>x. sk_id x = sk_id doc) (\<lambda>_. doc) hs"
      by (auto simp: saveSeeker_def Let_def split: if_splits)
    from Some have old: "old \<in> set hs" "sk_id old = sk_id doc"
      using find_in_set[OF Some] find_holds[OF Some] by auto
    show ?thesis
    proof (cases "sk_id doc = sk_id h")
      case True
      from old have "sk_id doc \<in> sk_id ` set hs" by (metis imageI)
      with doc obtain x where x: "x \<in> set hs" "sk_id doc = sk_id x"
          "truthy (sk_did x) \<longrightarrow> sk_did doc = sk_did x"
        by blast
      from x(1,2) True h ids have "x = h"
        by (metis distinct_map inj_on_def)
      with x(3) dset have "sk_did doc = sk_did h" by simp
      moreover have "find (\<lambda>x. sk_id x = sk_id h) hs' = Some doc"
        unfolding hs' True[symmetric]
        using Some by (simp add: find_update_first)
      ultimately show ?thesis by simp
    next
      case False
      have "find (\<lambda>x. sk_id x = sk_id h) hs' = find (\<lambda>x. sk_id x = sk_id h) hs"
        unfolding hs' by (rule find_update_first_other) (use False in auto)
      with fh show ?thesis by simp
    qed
  qed
qed

lemma findSeekerBySession_in:
  "findSeekerBySession sess hs = Inr (Some x) \<Longrightarrow> x \<in> set hs"
  by (auto simp: findSeekerBySession_def Let_def findSeekerByDid_def findSeekerByEmail_def
           split: sum.splits if_splits dest: find_in_set)

text \<open>
  Claim C9. A holder record whose DID is set keeps that DID through every later
  onboarding call, in both versions of the route and whatever the call supplies (another
  DID, another wallet address from which a DID can be derived): the record with the same
  document id is still stored afterwards and has the same DID. The DID is assigned only
  to a record that has none. Document ids are unique and the id given to a new document is
  not in use.
\<close>

theorem onboard_keeps_did:
  assumes ids: "distinct (map sk_id (seekers d))"
      and fresh: "oe_newId env \<notin> sk_id ` set (seekers d)"
      and h: "h \<in> set (seekers d)" and dset: "truthy (sk_did h)"
  shows "(\<exists>h'. find (\<lambda>x. sk_id x = sk_id h) (seekers (fst (onboardSeeker env rq d))) = Some h'
              \<and> sk_did h' = sk_did h)
       \<and> (\<exists>h'. find (\<lambda>x. sk_id x = sk_id h) (seekers (fst (onboardSeekerLegacy env body d))) = Some h'
              \<and> sk_did h' = sk_did h)"
proof
  have fh: "find (\<lambda>x. sk_id x = sk_id h) (seekers d) = Some h"
    by (rule find_distinct_key[OF ids h])
  note keep = save_keeps_did[OF ids h dset]
  show "\<exists>h'. find (\<lambda>x. sk_id x = sk_id h) (seekers (fst (onboardSeeker env rq d))) = Some h'
              \<and> sk_did h' = sk_did h"
  proof (cases "\<exists>hs. seekers (fst (onboardSeeker env rq d)) = hs \<and> hs \<noteq> seekers d")
    case False
    with fh show ?thesis by simp
  next
    case True
    then obtain session found where
      sess: "mustGetIdentity (oq_session rq) = Inr session"
      and found: "findSeekerBySession (oq_session rq) (seekers d) = Inr found"
      by (auto simp: onboardSeeker_def Let_def split: if_splits sum.splits prod.splits save_error.splits)
    let ?body = "oq_body rq"
    let ?name = "trim (orEmpty (ob_name ?body))"
    let ?doc0 = "(case found of Some x \<Rightarrow> x
                  | None \<Rightarrow> newSeeker (oe_newId env) (s_email session) (Some ?name)
                              (ob_onboarded ?body = Some True))"
    let ?doc1 = "(if truthy (s_email session) \<and> \<not> truthy (sk_email ?doc0)
                  then ?doc0\<lparr> sk_email := s_email session \<rparr> else ?doc0)"
    let ?doc2 = "fst (assignDidIfEmpty env (deriveDidFromSession session) ?doc1)"
    let ?doc3 = "applyBodyFields ?body (?doc2\<lparr> sk_name := Some ?name \<rparr>)"
    from True sess found obtain hs where
      save: "saveSeeker ?doc3 (seekers d) = Inr hs"
      and res: "seekers (fst (onboardSeeker env rq d)) = hs"
      by (auto simp: onboardSeeker_def Let_def split: if_splits sum.splits prod.splits save_error.splits)
    have "(\<exists>x\<in>set (seekers d). sk_id ?doc3 = sk_id x \<and> (truthy (sk_did x) \<longrightarrow> sk_did ?doc3 = sk_did x))
                \<or> sk_id ?doc3 \<notin> sk_id ` set (seekers d)"
    proof (cases found)
      case None
      then show ?thesis using fresh by (simp add: newSeeker_def)
    next
      case (Some x)
      with found have "x \<in> set (seekers d)" by (auto dest: findSeekerBySession_in)
      moreover have "sk_id ?doc3 = sk_id x" using Some by simp
      moreover have "truthy (sk_did x) \<longrightarrow> sk_did ?doc3 = sk_did x"
        using Some by (simp add: assignDidIfEmpty_did)
      ultimately show ?thesis by blast
    qed
    from keep[OF this save] res show ?thesis by simp
  qed
  show "\<exists>h'. find (\<lambda>x. sk_id x = sk_id h) (seekers (fst (onboardSeekerLegacy env body d))) = Some h'
              \<and> sk_did h' = sk_did h"
  proof (cases "seekers (fst (onboardSeekerLegacy env body d)) = seekers d")
    case True
    with fh show ?thesis by simp
  next
    case False
    let ?found = "(if truthy (ob_did body)
                     then find (\<lambda>h. sk_did h = ob_did body \<or> sk_email h = ob_email body) (seekers d)
                     else find (\<lambda>h. sk_email h = ob_email body) (seekers d))"
    let ?doc0 = "(case ?found of Some x \<Rightarrow> x
                  | None \<Rightarrow> newSeeker (oe_newId env) (ob_email body) (ob_name body)
                              (ob_onboarded body = Some True))"
    let ?doc1 = "fst (assignDidIfEmpty env (ob_did body) ?doc0)"
    let ?doc2 = "applyBodyFields body (?doc1\<lparr> sk_name := ob_name body \<rparr>)"
    from False obtain hs where
      save: "saveSeeker ?doc2 (seekers d) = Inr hs"
      and res: "seekers (fst (onboardSeekerLegacy env body d)) = hs"
      by (auto simp: onboardSeekerLegacy_def Let_def split: if_splits sum.splits prod.splits save_error.splits)
    have "(\<exists>x\<in>set (seekers d). sk_id ?doc2 = sk_id x \<and> (truthy (sk_did x) \<longrightarrow> sk_did ?doc2 = sk_did x))
                \<or> sk_id ?doc2 \<notin> sk_id ` set (seekers d)"
    proof (cases ?found)
      case None
      then show ?thesis using fresh by (simp add: newSeeker_def)
    next
      case (Some x)
      then have "x \<in> set (seekers d)" by (auto dest: find_in_set split: if_splits)
      moreover have "sk_id ?doc2 = sk_id x" using Some by simp
      moreover have "truthy (sk_did x) \<longrightarrow> sk_did ?doc2 = sk_did x"
        using Some by (simp add: assignDidIfEmpty_did)
      ultimately show ?thesis by blast
    qed
    from keep[OF this save] res show ?thesis by simp
  qed
qed


theorem onboard_keeps_did_witness:
  "(\<exists>h'. find (\<lambda>x. sk_id x = ''s1'') (seekers (fst (onboardSeeker ex_onboard_env ex_onboard_rq ex_db)))
            = Some h'
          \<and> sk_did h' = Some ''did:ex:holder'' \<and> sk_name h' = Some ''H again'')
   \<and> (\<exists>h'. find (\<lambda>x. sk_id x = ''s1'')
              (seekers (fst (onboardSeekerLegacy ex_onboard_env ex_onboard_body ex_db))) = Some h'
          \<and> sk_did h' = Some ''did:ex:holder'' \<and> sk_name h' = Some ''H again'')
   \<and> deriveDidFromSession (projr (mustGetIdentity (oq_session ex_onboard_rq)))
       = Some ''did:pkh:eip155:80002:0x00000000000000000000000000000000000000ab''"
proof -
  have h1: "distinct (map sk_id (seekers ex_db))" by (simp add: ex_badge_def ex_org_def ex_trust_cred_def ex_personal_cred_def ex_holder_def ex_app_def ex_proof_def ex_issuer_def ex_db_def absentBadge_def)
  have h2: "oe_newId ex_onboard_env \<notin> sk_id ` set (seekers ex_db)" by (simp add: ex_badge_def ex_org_def ex_trust_cred_def ex_personal_cred_def ex_holder_def ex_app_def ex_proof_def ex_issuer_def ex_db_def ex_onboard_env_def absentBadge_def)
  have h3: "ex_holder \<in> set (seekers ex_db)" by (simp add: ex_badge_def ex_org_def ex_trust_cred_def ex_personal_cred_def ex_holder_def ex_app_def ex_proof_def ex_issuer_def ex_db_def absentBadge_def)
  have h4: "truthy (sk_did ex_holder)" by (simp add: truthy_def ex_holder_def)
  have i: "sk_id ex_holder = ''s1''" "sk_did ex_holder = Some ''did:ex:holder''"
    by (simp_all add: ex_holder_def)
  have n1: "map_option sk_name (find (\<lambda>x. sk_id x = ''s1'')
              (seekers (fst (onboardSeeker ex_onboard_env ex_onboard_rq ex_db)))) = Some (Some ''H again'')"
    by code_simp
  have n2: "map_option sk_name (find (\<lambda>x. sk_id x = ''s1'')
              (seekers (fst (onboardSeekerLegacy ex_onboard_env ex_onboard_body ex_db))))
            = Some (Some ''H again'')"
    by code_simp
  have dv: "deriveDidFromSession (projr (mustGetIdentity (oq_session ex_onboard_rq)))
       = Some ''did:pkh:eip155:80002:0x00000000000000000000000000000000000000ab''"
    by code_simp
  from onboard_keeps_did[OF h1 h2 h3 h4, of ex_onboard_rq ex_onboard_body] n1 n2 dv
  show ?thesis by (auto simp: i)
qed

end
